theory Spec2Isabelle
  imports Complex_Main "HOL-Library.Sublist" "HOL-Library.Word"
begin

unbundle bit_operations_syntax

section \<open>JavaScript values used by the scraper services\<close>

text \<open>
  Numbers that the services only add, subtract and compare are integers (\<open>int\<close>);
  percentages and delays are exact reals. A missing object property (\<open>undefined\<close>) is
  \<open>None\<close>. Strings are lists of 8-bit characters, one \<open>char\<close> per code unit, so the
  documents and names of the model are the ones whose code units are below 256.
\<close>

text \<open>\<open>v || d\<close> on a number: \<open>undefined\<close> and \<open>0\<close> are falsy.\<close>

definition num_or :: "int option \<Rightarrow> int \<Rightarrow> int" where
  "num_or v d = (case v of None \<Rightarrow> d | Some n \<Rightarrow> if n = 0 then d else n)"

text \<open>\<open>v || d\<close> on a string: \<open>undefined\<close> and the empty string are falsy.\<close>

definition str_or :: "string option \<Rightarrow> string \<Rightarrow> string" where
  "str_or v d = (case v of None \<Rightarrow> d | Some s \<Rightarrow> if s = [] then d else s)"

text \<open>\<open>v || false\<close> on an optional boolean.\<close>

definition bool_or_false :: "bool option \<Rightarrow> bool" where
  "bool_or_false v = (case v of None \<Rightarrow> False | Some b \<Rightarrow> b)"

text \<open>Template-literal rendering of numbers, booleans and \<open>null\<close>.\<close>

definition digit_char :: "nat \<Rightarrow> char" where
  "digit_char d = ''0123456789'' ! (d mod 10)"

fun show_nat :: "nat \<Rightarrow> string" where
  "show_nat n = (if n < 10 then [digit_char n] else show_nat (n div 10) @ [digit_char (n mod 10)])"

declare show_nat.simps [simp del]

definition show_int :: "int \<Rightarrow> string" where
  "show_int i = (if i < 0 then CHR ''-'' # show_nat (nat (- i)) else show_nat (nat i))"

definition show_bool :: "bool \<Rightarrow> string" where
  "show_bool b = (if b then ''true'' else ''false'')"

definition show_bool_opt :: "bool option \<Rightarrow> string" where
  "show_bool_opt v = (case v of None \<Rightarrow> ''undefined'' | Some b \<Rightarrow> show_bool b)"

definition show_str_null :: "string option \<Rightarrow> string" where
  "show_str_null v = (case v of None \<Rightarrow> ''null'' | Some s \<Rightarrow> s)"

text \<open>
  \<open>x.toFixed(1)\<close>: one decimal digit, rounding the exact value half away from zero
  (the binary rounding of a double is not modelled).
\<close>

definition toFixed1 :: "real \<Rightarrow> string" where
  "toFixed1 x =
     (let t = nat \<lfloor>\<bar>x\<bar> * 10 + 1 / 2\<rfloor>;
          body = show_nat (t div 10) @ ''.'' @ [digit_char (t mod 10)]
      in if x < 0 \<and> 0 < t then CHR ''-'' # body else body)"

text \<open>\<open>s.includes(p)\<close>: \<open>p\<close> occurs in \<open>s\<close> as a contiguous run of characters.\<close>

fun str_includes :: "string \<Rightarrow> string \<Rightarrow> bool" where
  "str_includes [] p = (p = [])"
| "str_includes (c # cs) p = (prefix p (c # cs) \<or> str_includes cs p)"

text \<open>The calendar fields that the credit tracker reads from a \<open>Date\<close>.\<close>

record jsdate =
  getFullYear :: nat
  getMonth :: nat
  getDate :: nat

text \<open>A thrown \<open>Error\<close> with its message.\<close>

datatype js_error = Error string

fun message :: "js_error \<Rightarrow> string" where
  "message (Error m) = m"


section \<open>CreditTrackerService\<close>

record scraperapi_config =
  freeMonthlyLimit :: "int option"
  creditsPerRequest :: "(string \<rightharpoonup> int) option"

record scrapingdog_config =
  freeTrialLimit :: "int option"

text \<open>The part of the \<open>paidServices\<close> configuration that the tracker reads.\<close>

record RetryConfig =
  maxAttempts :: nat
  baseDelayMs :: real
  exponentialBase :: real
  jitterMs :: real

record paid_services_config =
  cfg_scraperapi :: "scraperapi_config option"
  cfg_scrapingdog :: "scrapingdog_config option"
  cfg_retry :: "RetryConfig option"

record CreditUsage =
  service :: string
  site :: string
  credits :: int
  usage_url :: "string option"
  timestamp :: jsdate
  successful :: bool

record scraperapi_limits =
  monthly :: int
  daily :: int
  remaining :: int

record scrapingdog_limits =
  trial :: int
  used :: int
  dog_remaining :: int

record ServiceLimits =
  scraperapi :: scraperapi_limits
  scrapingdog :: scrapingdog_limits

text \<open>The tracker's fields: the in-memory cache of this month's usage and the last reset.\<close>

record credit_tracker =
  monthlyUsage :: "string \<rightharpoonup> int"
  lastReset :: jsdate

text \<open>The key \<open>`${service}_${year}_${month}`\<close>.\<close>

definition usage_key :: "string \<Rightarrow> jsdate \<Rightarrow> string" where
  "usage_key svc now = svc @ ''_'' @ show_nat (getFullYear now) @ ''_'' @ show_nat (getMonth now)"

text \<open>\<open>this.monthlyUsage.get(key) || 0\<close>.\<close>

definition usage_of :: "credit_tracker \<Rightarrow> string \<Rightarrow> int" where
  "usage_of t key = num_or (monthlyUsage t key) 0"

text \<open>
  \<open>trackUsage\<close>: the cache update. Persisting and alerting only write log lines, and every
  error inside is caught, so the call returns normally with the updated cache.
\<close>

definition trackUsage :: "jsdate \<Rightarrow> CreditUsage \<Rightarrow> credit_tracker \<Rightarrow> credit_tracker" where
  "trackUsage now usage t =
     (let key = usage_key (service usage) now;
          currentUsage = usage_of t key
      in t\<lparr>monthlyUsage := (monthlyUsage t)(key \<mapsto> currentUsage + credits usage)\<rparr>)"

definition monthly_limit :: "paid_services_config \<Rightarrow> int" where
  "monthly_limit cfg =
     num_or (case cfg_scraperapi cfg of None \<Rightarrow> None | Some c \<Rightarrow> freeMonthlyLimit c) 1000"

definition trial_limit :: "paid_services_config \<Rightarrow> int" where
  "trial_limit cfg =
     num_or (case cfg_scrapingdog cfg of None \<Rightarrow> None | Some c \<Rightarrow> freeTrialLimit c) 1000"

definition getServiceLimits :: "paid_services_config \<Rightarrow> jsdate \<Rightarrow> credit_tracker \<Rightarrow> ServiceLimits" where
  "getServiceLimits cfg now t =
     (let currentKey = usage_key ''scraperapi'' now;
          scrapingdogKey = usage_key ''scrapingdog'' now;
          scraperAPIUsage = usage_of t currentKey;
          scrapingDogUsage = usage_of t scrapingdogKey
      in \<lparr> scraperapi = \<lparr> monthly = monthly_limit cfg,
                          daily = monthly_limit cfg div 30,
                          remaining = max 0 (monthly_limit cfg - scraperAPIUsage) \<rparr>,
           scrapingdog = \<lparr> trial = trial_limit cfg,
                           used = scrapingDogUsage,
                           dog_remaining = max 0 (trial_limit cfg - scrapingDogUsage) \<rparr> \<rparr>)"

definition hasAvailableCredits ::
  "paid_services_config \<Rightarrow> jsdate \<Rightarrow> credit_tracker \<Rightarrow> string \<Rightarrow> int \<Rightarrow> bool" where
  "hasAvailableCredits cfg now t svc requiredCredits =
     (let limits = getServiceLimits cfg now t
      in if svc = ''scraperapi'' then remaining (scraperapi limits) \<ge> requiredCredits
         else if svc = ''scrapingdog'' then dog_remaining (scrapingdog limits) \<ge> requiredCredits
         else False)"

definition getUsagePercentage ::
  "paid_services_config \<Rightarrow> jsdate \<Rightarrow> credit_tracker \<Rightarrow> string \<Rightarrow> real" where
  "getUsagePercentage cfg now t svc =
     (let limits = getServiceLimits cfg now t
      in if svc = ''scraperapi'' then
           (let used' = monthly (scraperapi limits) - remaining (scraperapi limits)
            in (real_of_int used' / real_of_int (monthly (scraperapi limits))) * 100)
         else if svc = ''scrapingdog'' then
           (real_of_int (used (scrapingdog limits)) / real_of_int (trial (scrapingdog limits))) * 100
         else 0)"

definition resetMonthlyUsage :: "jsdate \<Rightarrow> credit_tracker \<Rightarrow> credit_tracker" where
  "resetMonthlyUsage now t =
     (if getDate now = 1 \<and> getMonth now \<noteq> getMonth (lastReset t)
      then t\<lparr>monthlyUsage := Map.empty, lastReset := now\<rparr>
      else t)"

text \<open>
  The cost table is read by key. The site names of the scrapers are plain host names, so a
  lookup finds an own entry of the table or nothing; names inherited from the object
  prototype are outside the model.
\<close>

definition getCreditCost :: "paid_services_config \<Rightarrow> string \<Rightarrow> string \<Rightarrow> int" where
  "getCreditCost cfg siteName svc =
     (if svc = ''scraperapi'' then
        (let perRequest = (case cfg_scraperapi cfg of None \<Rightarrow> None | Some c \<Rightarrow> creditsPerRequest c);
             look = (\<lambda>k. case perRequest of None \<Rightarrow> None | Some m \<Rightarrow> m k)
         in num_or (look siteName) (num_or (look ''default'') 1))
      else 1)"

section \<open>AntiBypassService: the block detector\<close>

text \<open>
  \<open>toLowerCase\<close> on the code units below 256: the letters \<open>A\<close>--\<open>Z\<close> and the
  accented capitals \<open>0xC0\<close>--\<open>0xDE\<close> (without the multiplication sign \<open>0xD7\<close>) move up by 32.
\<close>

definition toLowerCase_char :: "char \<Rightarrow> char" where
  "toLowerCase_char c =
     (let n = (of_char c :: nat)
      in if (65 \<le> n \<and> n \<le> 90) \<or> (192 \<le> n \<and> n \<le> 222 \<and> n \<noteq> 215)
         then char_of (n + 32) else c)"

definition toLowerCase :: "string \<Rightarrow> string" where
  "toLowerCase s = map toLowerCase_char s"

definition blockingIndicators :: "string list" where
  "blockingIndicators =
     [ ''datadome.co/captcha'',
       ''dd.captcha-delivery.com/captcha'',
       ''geo.captcha-delivery.com/captcha'',
       ''ct.captcha-delivery.com'',
       ''captcha-delivery.com/interstitial'',
       ''captcha-delivery.com/captcha'',
       ''DataDome Captcha'',
       ''DataDome CAPTCHA'',
       ''DataDome Device Check'',
       ''Just a moment'',
       ''Verifying your browser'',
       ''Challenge solved'',
       ''DataDome protection'',
       ''Please complete the security check'',
       ''Access Denied'',
       ''Please verify you are a human'',
       ''Security Check'',
       ''Bot Protection'',
       ''Please wait while we check your browser'',
       ''forbidden'',
       ''rate limit exceeded'' ]"

definition hasJobContent :: "string \<Rightarrow> bool" where
  "hasJobContent htmlLower =
     (str_includes htmlLower ''mdc-card'' \<and>
      (str_includes htmlLower ''job'' \<or> str_includes htmlLower ''position''
       \<or> str_includes htmlLower ''vacancy''))"

definition hasBlockingIndicator :: "string \<Rightarrow> bool" where
  "hasBlockingIndicator htmlLower =
     list_ex (\<lambda>indicator. str_includes htmlLower indicator) blockingIndicators"

definition hasMinimalContent :: "string \<Rightarrow> bool" where
  "hasMinimalContent html = (length html < 500)"

definition isContentBlocked :: "string \<Rightarrow> bool" where
  "isContentBlocked html =
     (let htmlLower = toLowerCase html
      in if hasJobContent htmlLower \<and> length html > 50000 then False
         else hasBlockingIndicator htmlLower \<or> hasMinimalContent html)"


section \<open>ScrapingOrchestratorService\<close>

record ScrapingContext =
  url :: string
  siteName :: string
  page :: nat
  startTime :: nat
  totalRequestCount :: nat
  lastError :: "string option"

record response_metadata =
  meta_service :: string
  creditsUsed :: int
  fallbackReason :: "string option"

record BrowserScrapingResponse =
  html :: string
  finalUrl :: string
  status :: int
  headers :: "(string \<times> string) list"
  success :: bool
  error :: "string option"
  loadTime :: int
  cookies :: "string list"
  metadata :: "response_metadata option"

record ScrapingStrategy =
  name :: string
  execute :: "ScrapingContext \<Rightarrow> js_error + BrowserScrapingResponse"

record paid_metadata =
  pm_finalUrl :: "string option"
  pm_statusCode :: "int option"
  pm_responseHeaders :: "(string \<times> string) list option"

record PaidScrapingResponse =
  p_html :: string
  p_success :: bool
  p_credits :: int
  p_service :: string
  processingTime :: int
  p_error :: "string option"
  p_metadata :: "paid_metadata option"

record PaidScrapingOptions =
  po_url :: string
  po_siteName :: string
  render :: bool
  premium :: bool
  countryCode :: string
  timeout :: int

record fallback_options =
  retryConfig :: "RetryConfig option"
  enablePaidFallback :: "bool option"
  isBlockedChecker :: "(string \<Rightarrow> bool) option"

text \<open>
  What the orchestrator does to the outside, in order: calls of the free strategy, sleeps
  (milliseconds), calls of the paid provider, and usage records handed to the tracker.
\<close>

datatype event =
    FreeCall ScrapingContext
  | Sleep real
  | PaidCall PaidScrapingOptions
  | Track CreditUsage

record world =
  tracker :: credit_tracker
  trace :: "event list"

text \<open>
  The collaborators the orchestrator does not control: the paid provider (it returns a
  response or throws), the draws of \<open>Math.random()\<close> (one per attempt, each in \<open>[0, 1)\<close>)
  and the wall clock, read as a function of how many events have happened.
\<close>

record environment =
  scrapeWithScraperAPI :: "PaidScrapingOptions \<Rightarrow> js_error + PaidScrapingResponse"
  random :: "nat \<Rightarrow> real"
  clock :: "nat \<Rightarrow> jsdate"

definition today :: "environment \<Rightarrow> world \<Rightarrow> jsdate" where
  "today env w = clock env (length (trace w))"

definition emit :: "event \<Rightarrow> world \<Rightarrow> world" where
  "emit e w = w\<lparr>trace := trace w @ [e]\<rparr>"

definition getDefaultRetryConfig :: "paid_services_config \<Rightarrow> RetryConfig" where
  "getDefaultRetryConfig cfg =
     (case cfg_retry cfg of
        None \<Rightarrow> \<lparr> maxAttempts = 3, baseDelayMs = 10000, exponentialBase = 3, jitterMs = 2000 \<rparr>
      | Some rc \<Rightarrow> rc)"

text \<open>The body of the \<open>try\<close> block of one free attempt, after the strategy has been called.\<close>

datatype attempt_outcome =
    Succeeded BrowserScrapingResponse
  | Blocked
  | Failed js_error

definition attempt_outcome_of ::
  "(string \<Rightarrow> bool) option \<Rightarrow> js_error + BrowserScrapingResponse \<Rightarrow> attempt_outcome" where
  "attempt_outcome_of checker r =
     (case r of
        Inl e \<Rightarrow> Failed e
      | Inr response \<Rightarrow>
          if \<not> success response \<or> html response = []
          then Failed (Error (str_or (error response) ''No content received''))
          else if (case checker of None \<Rightarrow> False | Some isBlocked \<Rightarrow> isBlocked (html response))
          then Blocked
          else Succeeded response)"

text \<open>
  The delay before the next attempt, in milliseconds. The arithmetic is exact: the rounding
  and the overflow to \<open>Infinity\<close> of the code's double-precision numbers are not
  modelled, so nothing below rests on two computed delays being different or finite.
\<close>

definition retry_delay :: "environment \<Rightarrow> RetryConfig \<Rightarrow> nat \<Rightarrow> real" where
  "retry_delay env rc attempt =
     baseDelayMs rc * exponentialBase rc ^ (attempt - 1) + random env attempt * jitterMs rc"

text \<open>
  The retry loop of \<open>executeWithFallback\<close>, from attempt number \<open>attempt\<close> on. The result
  is the response the loop returned (\<open>Some\<close>), or \<open>None\<close> when the loop was left by
  \<open>break\<close> or by exhausting the attempts, with the context, \<open>lastError\<close> and world then.
\<close>

function free_attempts ::
  "environment \<Rightarrow> ScrapingStrategy \<Rightarrow> RetryConfig \<Rightarrow> (string \<Rightarrow> bool) option \<Rightarrow> nat \<Rightarrow>
   ScrapingContext \<times> string option \<times> world \<Rightarrow>
   BrowserScrapingResponse option \<times> ScrapingContext \<times> string option \<times> world" where
  "free_attempts env strategy rc checker attempt (ctx, lastErr, w) =
     (if attempt \<le> maxAttempts rc then
        (let ctx1 = ctx\<lparr>totalRequestCount := totalRequestCount ctx + 1\<rparr>;
             w1 = emit (FreeCall ctx1) w
         in case attempt_outcome_of checker (execute strategy ctx1) of
              Succeeded response \<Rightarrow> (Some response, ctx1, lastErr, w1)
            | Blocked \<Rightarrow> (None, ctx1, Some ''Blocking detected - requires premium service'', w1)
            | Failed e \<Rightarrow>
                (let w2 = (if attempt < maxAttempts rc
                           then emit (Sleep (retry_delay env rc attempt)) w1 else w1)
                 in free_attempts env strategy rc checker (attempt + 1)
                      (ctx1, Some (message e), w2)))
      else (None, ctx, lastErr, w))"
  by pat_completeness auto
termination
  by (relation "measure (\<lambda>(env, strategy, rc, checker, attempt, s). maxAttempts rc + 1 - attempt)") auto

declare free_attempts.simps [simp del]

text \<open>The paid provider's answer as the \<open>try\<close> block of \<open>executeWithPaidService\<close> sees it.\<close>

definition paid_outcome_of :: "js_error + PaidScrapingResponse \<Rightarrow> js_error + PaidScrapingResponse" where
  "paid_outcome_of r =
     (case r of
        Inl e \<Rightarrow> Inl e
      | Inr paidResponse \<Rightarrow>
          if \<not> p_success paidResponse \<or> p_html paidResponse = []
          then Inl (Error (''ScraperAPI failed: '' @ str_or (p_error paidResponse) ''No content received''))
          else Inr paidResponse)"

definition track :: "environment \<Rightarrow> CreditUsage \<Rightarrow> world \<Rightarrow> world" where
  "track env usage w = emit (Track usage) (w\<lparr>tracker := trackUsage (today env w) usage (tracker w)\<rparr>)"

definition paidOptions_of :: "ScrapingContext \<Rightarrow> PaidScrapingOptions" where
  "paidOptions_of ctx =
     \<lparr> po_url = url ctx, po_siteName = siteName ctx, render = True, premium = True,
       countryCode = (if str_includes (siteName ctx) ''.bg'' then ''bg'' else ''us''),
       timeout = 180000 \<rparr>"

definition insufficient_credits_message :: "real \<Rightarrow> int \<Rightarrow> string" where
  "insufficient_credits_message usagePercentage requiredCredits =
     ''Insufficient ScraperAPI credits. Current usage: '' @ toFixed1 usagePercentage
     @ ''%. Required: '' @ show_int requiredCredits @ '' credits.''"

text \<open>The response that \<open>executeWithPaidService\<close> builds from a successful paid response.\<close>

definition paid_to_browser_response ::
  "ScrapingContext \<Rightarrow> PaidScrapingResponse \<Rightarrow> BrowserScrapingResponse" where
  "paid_to_browser_response ctx paidResponse =
     (let meta = p_metadata paidResponse
      in \<lparr> html = p_html paidResponse,
           finalUrl = str_or (case meta of None \<Rightarrow> None | Some m \<Rightarrow> pm_finalUrl m) (url ctx),
           status = num_or (case meta of None \<Rightarrow> None | Some m \<Rightarrow> pm_statusCode m) 200,
           headers = (case (case meta of None \<Rightarrow> None | Some m \<Rightarrow> pm_responseHeaders m) of
                        None \<Rightarrow> [] | Some h \<Rightarrow> h),
           success = True,
           error = None,
           loadTime = num_or (Some (processingTime paidResponse)) 0,
           cookies = [],
           metadata = Some \<lparr> meta_service = ''scraperapi'',
                             creditsUsed = p_credits paidResponse,
                             fallbackReason = lastError ctx \<rparr> \<rparr>)"

definition executeWithPaidService ::
  "environment \<Rightarrow> paid_services_config \<Rightarrow> ScrapingContext \<Rightarrow> world \<Rightarrow>
   (js_error + BrowserScrapingResponse) \<times> world" where
  "executeWithPaidService env cfg ctx w =
     (let requiredCredits = getCreditCost cfg (siteName ctx) ''scraperapi'';
          hasCredits = hasAvailableCredits cfg (today env w) (tracker w) ''scraperapi'' requiredCredits
      in if \<not> hasCredits then
           (let usagePercentage = getUsagePercentage cfg (today env w) (tracker w) ''scraperapi''
            in (Inl (Error (insufficient_credits_message usagePercentage requiredCredits)), w))
         else
           (let paidOptions = paidOptions_of ctx;
                w1 = emit (PaidCall paidOptions) w
            in case paid_outcome_of (scrapeWithScraperAPI env paidOptions) of
                 Inr paidResponse \<Rightarrow>
                   (let w2 = track env \<lparr> service = ''scraperapi'', site = siteName ctx,
                                         credits = p_credits paidResponse, usage_url = Some (url ctx),
                                         timestamp = today env w1, successful = True \<rparr> w1
                    in (Inr (paid_to_browser_response ctx paidResponse), w2))
               | Inl e \<Rightarrow>
                   (let w2 = track env \<lparr> service = ''scraperapi'', site = siteName ctx,
                                         credits = 0, usage_url = Some (url ctx),
                                         timestamp = today env w1, successful = False \<rparr> w1
                    in (Inl e, w2))))"

text \<open>The failure value returned when the paid fallback is switched off.\<close>

definition free_failure_response :: "RetryConfig \<Rightarrow> ScrapingContext \<Rightarrow> string option \<Rightarrow> BrowserScrapingResponse" where
  "free_failure_response rc context lastErr =
     \<lparr> html = [], finalUrl = url context, status = 0, headers = [], success = False,
       error = Some (''Free scraping failed after '' @ show_nat (maxAttempts rc)
                     @ '' attempts: '' @ show_str_null lastErr),
       loadTime = 0, cookies = [], metadata = None \<rparr>"

text \<open>
  The destructured options of \<open>executeWithFallback\<close>: a default applies when the
  property is \<open>undefined\<close>.
\<close>

definition retry_policy :: "paid_services_config \<Rightarrow> fallback_options \<Rightarrow> RetryConfig" where
  "retry_policy cfg options =
     (case retryConfig options of None \<Rightarrow> getDefaultRetryConfig cfg | Some r \<Rightarrow> r)"

definition paid_fallback_enabled :: "fallback_options \<Rightarrow> bool" where
  "paid_fallback_enabled options = (case enablePaidFallback options of None \<Rightarrow> True | Some b \<Rightarrow> b)"

text \<open>
  \<open>executeWithFallback\<close>. The caller's context object is mutated by the loop
  (\<open>totalRequestCount\<close>) and is returned with the result. Once the loop has been left
  without a response, the paid service is called when the fallback is enabled (on a copy
  of the context carrying \<open>lastError\<close>; what it throws propagates), and the failure
  value is returned otherwise.
\<close>

definition executeWithFallback ::
  "environment \<Rightarrow> paid_services_config \<Rightarrow> ScrapingContext \<Rightarrow> ScrapingStrategy \<Rightarrow>
   fallback_options \<Rightarrow> world \<Rightarrow>
   (js_error + BrowserScrapingResponse) \<times> ScrapingContext \<times> world" where
  "executeWithFallback env cfg context freeStrategy options w =
     (let rc = retry_policy cfg options;
          paidFallback = paid_fallback_enabled options
      in case free_attempts env freeStrategy rc (isBlockedChecker options) 1 (context, None, w) of
           (Some response, ctx', lastErr, w') \<Rightarrow> (Inr response, ctx', w')
         | (None, ctx', lastErr, w') \<Rightarrow>
             if paidFallback then
               (case executeWithPaidService env cfg (ctx'\<lparr>lastError := lastErr\<rparr>) w' of
                  (r, w'') \<Rightarrow> (r, ctx', w''))
             else (Inr (free_failure_response rc ctx' lastErr), ctx', w'))"

text \<open>Reading a trace: the number of free-strategy calls, and the delays slept, in order.\<close>

fun free_calls :: "event list \<Rightarrow> nat" where
  "free_calls [] = 0"
| "free_calls (FreeCall c # es) = Suc (free_calls es)"
| "free_calls (e # es) = free_calls es"

fun paid_calls :: "event list \<Rightarrow> nat" where
  "paid_calls [] = 0"
| "paid_calls (PaidCall opts # es) = Suc (paid_calls es)"
| "paid_calls (e # es) = paid_calls es"

fun sleeps :: "event list \<Rightarrow> real list" where
  "sleeps [] = []"
| "sleeps (Sleep d # es) = d # sleeps es"
| "sleeps (e # es) = sleeps es"


section \<open>The MD5 digest of the \<open>crypto\<close> library\<close>

text \<open>
  \<open>crypto.createHash('md5').update(s).digest('hex')\<close>, after RFC 1321: the text is
  encoded in UTF-8, padded to whole blocks of sixteen little-endian 32-bit words, and the
  four state words are printed as 32 lower-case hexadecimal digits.
\<close>

definition md5_shifts :: "nat list" where
  "md5_shifts =
     [
       7, 12, 17, 22, 7, 12, 17, 22, 7, 12, 17, 22, 7, 12, 17, 22,
       5, 9, 14, 20, 5, 9, 14, 20, 5, 9, 14, 20, 5, 9, 14, 20,
       4, 11, 16, 23, 4, 11, 16, 23, 4, 11, 16, 23, 4, 11, 16, 23,
       6, 10, 15, 21, 6, 10, 15, 21, 6, 10, 15, 21, 6, 10, 15, 21 ]"

definition md5_sines :: "32 word list" where
  "md5_sines =
     [
       0xd76aa478, 0xe8c7b756, 0x242070db, 0xc1bdceee,
       0xf57c0faf, 0x4787c62a, 0xa8304613, 0xfd469501,
       0x698098d8, 0x8b44f7af, 0xffff5bb1, 0x895cd7be,
       0x6b901122, 0xfd987193, 0xa679438e, 0x49b40821,
       0xf61e2562, 0xc040b340, 0x265e5a51, 0xe9b6c7aa,
       0xd62f105d, 0x02441453, 0xd8a1e681, 0xe7d3fbc8,
       0x21e1cde6, 0xc33707d6, 0xf4d50d87, 0x455a14ed,
       0xa9e3e905, 0xfcefa3f8, 0x676f02d9, 0x8d2a4c8a,
       0xfffa3942, 0x8771f681, 0x6d9d6122, 0xfde5380c,
       0xa4beea44, 0x4bdecfa9, 0xf6bb4b60, 0xbebfbc70,
       0x289b7ec6, 0xeaa127fa, 0xd4ef3085, 0x04881d05,
       0xd9d4d039, 0xe6db99e5, 0x1fa27cf8, 0xc4ac5665,
       0xf4292244, 0x432aff97, 0xab9423a7, 0xfc93a039,
       0x655b59c3, 0x8f0ccc92, 0xffeff47d, 0x85845dd1,
       0x6fa87e4f, 0xfe2ce6e0, 0xa3014314, 0x4e0811a1,
       0xf7537e82, 0xbd3af235, 0x2ad7d2bb, 0xeb86d391 ]"

definition md5_step :: "32 word list \<Rightarrow> nat \<Rightarrow> 32 word \<times> 32 word \<times> 32 word \<times> 32 word \<Rightarrow>
    32 word \<times> 32 word \<times> 32 word \<times> 32 word" where
  "md5_step M i st =
     (case st of (A, B, C, D) \<Rightarrow>
        (let F = (if i < 16 then (B AND C) OR (NOT B AND D)
                  else if i < 32 then (D AND B) OR (NOT D AND C)
                  else if i < 48 then B XOR C XOR D
                  else C XOR (B OR NOT D));
             g = (if i < 16 then i
                  else if i < 32 then (5 * i + 1) mod 16
                  else if i < 48 then (3 * i + 5) mod 16
                  else (7 * i) mod 16)
         in (D, B + word_rotl (md5_shifts ! i) (F + A + md5_sines ! i + M ! g), B, C)))"

definition md5_block :: "32 word \<times> 32 word \<times> 32 word \<times> 32 word \<Rightarrow> 32 word list \<Rightarrow>
    32 word \<times> 32 word \<times> 32 word \<times> 32 word" where
  "md5_block st M =
     (case st of (a0, b0, c0, d0) \<Rightarrow>
        (case fold (md5_step M) [0..<64] st of (A, B, C, D) \<Rightarrow> (a0 + A, b0 + B, c0 + C, d0 + D)))"

definition utf8_of_char :: "char \<Rightarrow> nat list" where
  "utf8_of_char c = (let n = (of_char c :: nat) in if n < 128 then [n] else [192 + n div 64, 128 + n mod 64])"

definition le_bytes :: "nat \<Rightarrow> nat \<Rightarrow> nat list" where
  "le_bytes k n = map (\<lambda>i. (n div 256 ^ i) mod 256) [0..<k]"

definition md5_pad :: "nat list \<Rightarrow> nat list" where
  "md5_pad bs = bs @ [128] @ replicate ((119 - length bs mod 64) mod 64) 0 @ le_bytes 8 (8 * length bs)"

fun words_of_bytes :: "nat list \<Rightarrow> 32 word list" where
  "words_of_bytes (b0 # b1 # b2 # b3 # bs) =
     of_nat (b0 + 256 * b1 + 65536 * b2 + 16777216 * b3) # words_of_bytes bs"
| "words_of_bytes bs = []"

fun md5_blocks :: "32 word \<times> 32 word \<times> 32 word \<times> 32 word \<Rightarrow> 32 word list \<Rightarrow>
    32 word \<times> 32 word \<times> 32 word \<times> 32 word" where
  "md5_blocks st ws = (if length ws < 16 then st else md5_blocks (md5_block st (take 16 ws)) (drop 16 ws))"

declare md5_blocks.simps [simp del]

definition hex_byte :: "nat \<Rightarrow> string" where
  "hex_byte b = [''0123456789abcdef'' ! (b div 16 mod 16), ''0123456789abcdef'' ! (b mod 16)]"

definition hex_word_le :: "32 word \<Rightarrow> string" where
  "hex_word_le w = concat (map hex_byte (le_bytes 4 (unat w)))"

definition md5_hex :: "string \<Rightarrow> string" where
  "md5_hex s =
     (case md5_blocks (0x67452301, 0xefcdab89, 0x98badcfe, 0x10325476)
             (words_of_bytes (md5_pad (concat (map utf8_of_char s)))) of
        (A, B, C, D) \<Rightarrow> hex_word_le A @ hex_word_le B @ hex_word_le C @ hex_word_le D)"


section \<open>BrowserEngineService: the session registry\<close>

record BrowserSessionConfig =
  session_siteName :: string
  userAgent :: "string option"
  headless :: "bool option"
  stealth :: "bool option"
  loadImages :: "bool option"
  session_timeout :: "int option"

text \<open>
  A session. The browsing context and its page are the handles Playwright gave out;
  times are milliseconds since the epoch.
\<close>

record IBrowserSession =
  browser_context :: nat
  session_page :: nat
  session_config :: BrowserSessionConfig
  createdAt :: nat
  lastActivity :: nat
  requestCount :: nat
  session_id :: string

text \<open>
  The service's fields: whether the shared browser has been launched, the session map,
  and the browsing contexts created and closed so far (handles are given out in order,
  so the next one is the number created).
\<close>

record engine =
  browser :: bool
  sessions :: "string \<rightharpoonup> IBrowserSession"
  contextsCreated :: nat
  contextsClosed :: "nat list"

text \<open>
  The libraries the service calls: \<open>crypto\<close>'s MD5 hex digest, and Playwright, whose
  calls succeed or throw an error with a message (\<open>launch_error\<close> for
  \<open>chromium.launch\<close>, \<open>newContext_error\<close> for creating context \<open>n\<close> with its page and
  scripts, \<open>close_error\<close> for closing context \<open>n\<close>).
\<close>

record libraries =
  md5hex :: "string \<Rightarrow> string"
  launch_error :: "string option"
  newContext_error :: "nat \<Rightarrow> string option"
  close_error :: "nat \<Rightarrow> string option"

text \<open>
  \<open>generateSessionId(config, forceNew)\<close>. With \<open>forceNew\<close> the caller's
  reading of \<open>Date.now()\<close> and the text of its \<open>Math.random()\<close> draw are \<open>Some (ms, r)\<close>.
\<close>

definition baseStr :: "BrowserSessionConfig \<Rightarrow> string" where
  "baseStr config =
     session_siteName config @ ''-'' @ str_or (userAgent config) ''default'' @ ''-''
     @ show_bool_opt (headless config) @ ''-'' @ show_bool (bool_or_false (stealth config))"

definition generateSessionId ::
  "libraries \<Rightarrow> BrowserSessionConfig \<Rightarrow> (nat \<times> string) option \<Rightarrow> string" where
  "generateSessionId lib config forceNew =
     (case forceNew of
        Some (ms, r) \<Rightarrow> take 8 (md5hex lib (baseStr config @ ''-'' @ show_nat ms @ ''-'' @ r))
      | None \<Rightarrow> take 8 (md5hex lib (baseStr config)))"

definition createNewSession ::
  "libraries \<Rightarrow> nat \<Rightarrow> BrowserSessionConfig \<Rightarrow> string option \<Rightarrow> engine \<Rightarrow>
   (js_error + IBrowserSession) \<times> engine" where
  "createNewSession lib t config sessionId e =
     (let ident = str_or sessionId (generateSessionId lib config None)
      in case (if browser e then None else launch_error lib) of
           Some m \<Rightarrow>
             (Inl (Error (''Browser initialization failed for '' @ session_siteName config @ '': ''
                          @ m @ ''. Browser automation is not available.'')), e)
         | None \<Rightarrow>
             (let e1 = e\<lparr>browser := True\<rparr>;
                  h = contextsCreated e1
              in case newContext_error lib h of
                   Some m \<Rightarrow> (Inl (Error m), e1)
                 | None \<Rightarrow>
                     (let session = \<lparr> browser_context = h, session_page = h, session_config = config,
                                      createdAt = t, lastActivity = t, requestCount = 0,
                                      session_id = ident \<rparr>
                      in (Inr session,
                          e1\<lparr>sessions := (sessions e1)(ident \<mapsto> session),
                             contextsCreated := h + 1\<rparr>))))"

definition getSession ::
  "libraries \<Rightarrow> nat \<Rightarrow> BrowserSessionConfig \<Rightarrow> engine \<Rightarrow> (js_error + IBrowserSession) \<times> engine" where
  "getSession lib t config e =
     (let sessionId = generateSessionId lib config None
      in case sessions e sessionId of
           Some session \<Rightarrow>
             (let session' = session\<lparr>lastActivity := t\<rparr>
              in (Inr session', e\<lparr>sessions := (sessions e)(sessionId \<mapsto> session')\<rparr>))
         | None \<Rightarrow> createNewSession lib t config (Some sessionId) e)"

definition closeSession :: "libraries \<Rightarrow> string \<Rightarrow> engine \<Rightarrow> engine" where
  "closeSession lib sessionId e =
     (case sessions e sessionId of
        None \<Rightarrow> e
      | Some session \<Rightarrow>
          (case close_error lib (browser_context session) of
             None \<Rightarrow> e\<lparr>sessions := (sessions e)(sessionId := None),
                       contextsClosed := contextsClosed e @ [browser_context session]\<rparr>
           | Some m \<Rightarrow> e))"

definition rotateSession ::
  "libraries \<Rightarrow> nat \<Rightarrow> string \<Rightarrow> string \<Rightarrow> engine \<Rightarrow> (js_error + IBrowserSession) \<times> engine" where
  "rotateSession lib t r sessionId e =
     (case sessions e sessionId of
        None \<Rightarrow> (Inl (Error (''Session '' @ sessionId @ '' not found'')), e)
      | Some currentSession \<Rightarrow>
          (let config = session_config currentSession;
               e1 = closeSession lib sessionId e;
               newSessionId = generateSessionId lib config (Some (t, r))
           in createNewSession lib t config (Some newSessionId) e1))"

text \<open>The service's fields when it is constructed.\<close>

definition initial_engine :: engine where
  "initial_engine = \<lparr> browser = False, sessions = Map.empty, contextsCreated = 0, contextsClosed = [] \<rparr>"

text \<open>Every session is registered under its own id.\<close>

definition pool_ok :: "engine \<Rightarrow> bool" where
  "pool_ok e = (\<forall>k s. sessions e k = Some s \<longrightarrow> session_id s = k)"

text \<open>
  Two call sequences of a client: \<open>getSession\<close>, \<open>rotateSession\<close> on the id it
  returned, \<open>getSession\<close> again with the same configuration; and \<open>getSession\<close> twice.
  The result is \<open>None\<close> when a call throws.
\<close>

definition acquire_rotate_acquire ::
  "libraries \<Rightarrow> BrowserSessionConfig \<Rightarrow> nat \<Rightarrow> nat \<Rightarrow> string \<Rightarrow> nat \<Rightarrow> engine \<Rightarrow>
   (IBrowserSession \<times> IBrowserSession \<times> IBrowserSession) option" where
  "acquire_rotate_acquire lib config t1 t2 r t3 e =
     (case getSession lib t1 config e of
        (Inl err, e1) \<Rightarrow> None
      | (Inr s1, e1) \<Rightarrow>
          (case rotateSession lib t2 r (session_id s1) e1 of
             (Inl err, e2) \<Rightarrow> None
           | (Inr s2, e2) \<Rightarrow>
               (case getSession lib t3 config e2 of
                  (Inl err, e3) \<Rightarrow> None
                | (Inr s3, e3) \<Rightarrow> Some (s1, s2, s3))))"

definition acquire_twice ::
  "libraries \<Rightarrow> BrowserSessionConfig \<Rightarrow> nat \<Rightarrow> nat \<Rightarrow> engine \<Rightarrow>
   (IBrowserSession \<times> IBrowserSession \<times> engine \<times> engine) option" where
  "acquire_twice lib config t1 t2 e =
     (case getSession lib t1 config e of
        (Inl err, e1) \<Rightarrow> None
      | (Inr s1, e1) \<Rightarrow>
          (case getSession lib t2 config e1 of
             (Inl err, e2) \<Rightarrow> None
           | (Inr s2, e2) \<Rightarrow> Some (s1, s2, e1, e2)))"


section \<open>Example inputs\<close>

text \<open>
  Concrete values at which the theorems below are instantiated: a date in November 2026
  (month number 10), a ledger holding \<open>n\<close> credits for \<open>scraperapi\<close> in that month,
  the shipped configuration (monthly limit 1000) with a given table of credit costs, and
  a request for the site \<open>jobs.bg\<close>.
\<close>

definition nov3 :: jsdate where
  "nov3 = \<lparr> getFullYear = 2026, getMonth = 10, getDate = 3 \<rparr>"

definition ledger_with :: "int \<Rightarrow> credit_tracker" where
  "ledger_with n = \<lparr> monthlyUsage = [''scraperapi_2026_10'' \<mapsto> n],
                     lastReset = \<lparr> getFullYear = 2026, getMonth = 10, getDate = 1 \<rparr> \<rparr>"

definition config_with_costs :: "(string \<rightharpoonup> int) \<Rightarrow> paid_services_config" where
  "config_with_costs costs =
     \<lparr> cfg_scraperapi = Some \<lparr> freeMonthlyLimit = Some 1000, creditsPerRequest = Some costs \<rparr>,
       cfg_scrapingdog = Some \<lparr> freeTrialLimit = Some 1000 \<rparr>,
       cfg_retry = None \<rparr>"

definition example_context :: ScrapingContext where
  "example_context = \<lparr> url = ''https://www.jobs.bg/front_job_search.php'', siteName = ''jobs.bg'',
                        page = 1, startTime = 0, totalRequestCount = 0, lastError = None \<rparr>"

definition failed_paid_response :: PaidScrapingResponse where
  "failed_paid_response = \<lparr> p_html = [], p_success = False, p_credits = 0, p_service = ''scraperapi'',
                            processingTime = 1200, p_error = Some ''HTTP 500'', p_metadata = None \<rparr>"

definition example_env :: "(PaidScrapingOptions \<Rightarrow> js_error + PaidScrapingResponse) \<Rightarrow> (nat \<Rightarrow> real) \<Rightarrow> environment" where
  "example_env paid draws = \<lparr> scrapeWithScraperAPI = paid, random = draws, clock = (\<lambda>n. nov3) \<rparr>"

definition world_with :: "int \<Rightarrow> world" where
  "world_with n = \<lparr> tracker = ledger_with n, trace = [] \<rparr>"


text \<open>
  A free strategy whose every call throws a connection error, one that returns a short
  challenge page, and the credit costs of the shipped configuration.
\<close>

definition failing_strategy :: ScrapingStrategy where
  "failing_strategy = \<lparr> name = ''jobs.bg-stealth-browser'',
                         execute = (\<lambda>c. Inl (Error ''net::ERR_CONNECTION_RESET'')) \<rparr>"


definition blocked_page_strategy :: ScrapingStrategy where
  "blocked_page_strategy =
     \<lparr> name = ''jobs.bg-stealth-browser'',
       execute = (\<lambda>c. Inr \<lparr> html = ''<html><title>Just a moment</title>forbidden</html>'',
                              finalUrl = url c, status = 403, headers = [], success = True,
                              error = None, loadTime = 900, cookies = [], metadata = None \<rparr>) \<rparr>"

definition shipped_costs :: "string \<rightharpoonup> int" where
  "shipped_costs = [''jobs.bg'' \<mapsto> 10, ''default'' \<mapsto> 1]"


text \<open>
  The libraries when every Playwright call succeeds, and the configuration with which the
  \<open>jobs.bg\<close> scraper asks for its session.
\<close>

definition working_libraries :: libraries where
  "working_libraries = \<lparr> md5hex = md5_hex, launch_error = None,
                           newContext_error = (\<lambda>n. None), close_error = (\<lambda>n. None) \<rparr>"

definition jobs_bg_session_config :: BrowserSessionConfig where
  "jobs_bg_session_config =
     \<lparr> session_siteName = ''jobs.bg'',
       userAgent = Some ''Mozilla/5.0 (iPhone; CPU iPhone OS 17_0 like Mac OS X) AppleWebKit/605.1.15 (KHTML, like Gecko) Version/17.0 Mobile/15E148 Safari/604.1'',
       headless = Some False, stealth = Some True, loadImages = Some True,
       session_timeout = Some 120000 \<rparr>"


section \<open>Properties of the credit tracker\<close>

lemma monthly_limit_configured:
  "cfg_scraperapi cfg = Some sc \<Longrightarrow> freeMonthlyLimit sc = Some L \<Longrightarrow> L \<noteq> 0 \<Longrightarrow> monthly_limit cfg = L"
  by (simp add: monthly_limit_def num_or_def)

lemma getUsagePercentage_scraperapi:
  "getUsagePercentage cfg d t ''scraperapi'' =
     real_of_int (monthly_limit cfg - max 0 (monthly_limit cfg - usage_of t (usage_key ''scraperapi'' d)))
       / real_of_int (monthly_limit cfg) * 100"
  by (simp add: getUsagePercentage_def getServiceLimits_def Let_def)

lemma trackUsage_usage_of:
  "usage_of (trackUsage d u t) k =
     (if k = usage_key (service u) d then num_or (Some (usage_of t k + credits u)) 0 else usage_of t k)"
  by (simp add: trackUsage_def usage_of_def Let_def)

lemma usage_of_nonneg_trackUsage:
  assumes "0 \<le> credits u" and "\<And>k. 0 \<le> usage_of t k"
  shows "0 \<le> usage_of (trackUsage d u t) k"
  using assms by (simp add: trackUsage_usage_of num_or_def)

lemma usage_of_resetMonthlyUsage_nonneg:
  assumes "\<And>k. 0 \<le> usage_of t k"
  shows "0 \<le> usage_of (resetMonthlyUsage d t) k"
  using assms by (simp add: resetMonthlyUsage_def usage_of_def num_or_def)

text \<open>
  Claim C10, as the code has it. With a positive configured monthly limit, the usage
  percentage of \<open>scraperapi\<close> is at most 100 in every ledger state, also when the
  recorded usage exceeds the limit: the remaining credits are clamped at zero, so the
  credits counted as used never exceed the limit. It is at least 0 when the recorded usage
  of the current period is not negative. (Recorded usage stays non-negative as long as
  the credits handed to \<open>trackUsage\<close> are, as the two lemmas above show.)
\<close>

theorem getUsagePercentage_scraperapi_bounds:
  assumes "cfg_scraperapi cfg = Some sc" and "freeMonthlyLimit sc = Some L" and "0 < L"
  shows "getUsagePercentage cfg d t ''scraperapi'' \<le> 100
       \<and> (0 \<le> usage_of t (usage_key ''scraperapi'' d) \<longrightarrow> 0 \<le> getUsagePercentage cfg d t ''scraperapi'')"
proof -
  let ?u = "usage_of t (usage_key ''scraperapi'' d)"
  have lim: "monthly_limit cfg = L"
    using assms(1-3) by (simp add: monthly_limit_configured)
  let ?spent = "L - max 0 (L - ?u)"
  have upper: "?spent \<le> L" by simp
  have lower: "0 \<le> ?spent" if "0 \<le> ?u"
    using that assms(3) by auto
  have pct: "getUsagePercentage cfg d t ''scraperapi'' = real_of_int ?spent / real_of_int L * 100"
    by (simp only: getUsagePercentage_scraperapi lim)
  define q where "q = real_of_int ?spent / real_of_int L"
  have pos: "0 < real_of_int L" using assms(3) by simp
  have "q \<le> 1"
    unfolding q_def using upper pos by (subst divide_le_eq_1_pos) simp_all
  then have hi: "q * 100 \<le> 100" by simp
  have lo: "0 \<le> q * 100" if "0 \<le> ?u"
  proof -
    have "0 \<le> q"
      unfolding q_def using lower [OF that] pos by (intro divide_nonneg_pos) simp_all
    then show ?thesis by simp
  qed
  show ?thesis using hi lo unfolding pct q_def by blast
qed

text \<open>A ledger with 1500 credits recorded against a limit of 1000 reads exactly 100 percent.\<close>

theorem getUsagePercentage_scraperapi_bounds_witness:
  "getUsagePercentage
     \<lparr> cfg_scraperapi = Some \<lparr> freeMonthlyLimit = Some 1000, creditsPerRequest = None \<rparr>,
       cfg_scrapingdog = None, cfg_retry = None \<rparr>
     \<lparr> getFullYear = 2026, getMonth = 10, getDate = 3 \<rparr>
     \<lparr> monthlyUsage = [''scraperapi_2026_10'' \<mapsto> 1500],
       lastReset = \<lparr> getFullYear = 2026, getMonth = 10, getDate = 1 \<rparr> \<rparr>
     ''scraperapi'' = 100"
proof -
  let ?cfg = "\<lparr> cfg_scraperapi = Some \<lparr> freeMonthlyLimit = Some 1000, creditsPerRequest = None \<rparr>,
       cfg_scrapingdog = None, cfg_retry = None \<rparr>"
  let ?d = "\<lparr> getFullYear = 2026, getMonth = 10, getDate = 3 \<rparr>"
  let ?t = "\<lparr> monthlyUsage = [''scraperapi_2026_10'' \<mapsto> 1500],
       lastReset = \<lparr> getFullYear = 2026, getMonth = 10, getDate = 1 \<rparr> \<rparr>"
  have k: "usage_key ''scraperapi'' ?d = ''scraperapi_2026_10''"
    by (simp add: usage_key_def show_nat.simps digit_char_def)
  have u: "0 \<le> usage_of ?t (usage_key ''scraperapi'' ?d)"
    by (simp add: k usage_of_def num_or_def)
  have b: "getUsagePercentage ?cfg ?d ?t ''scraperapi'' \<le> 100
           \<and> 0 \<le> getUsagePercentage ?cfg ?d ?t ''scraperapi''"
    using getUsagePercentage_scraperapi_bounds [of ?cfg "\<lparr> freeMonthlyLimit = Some 1000, creditsPerRequest = None \<rparr>" 1000 ?d ?t] u
    by simp
  have "100 \<le> getUsagePercentage ?cfg ?d ?t ''scraperapi''"
    by (simp add: getUsagePercentage_scraperapi k usage_of_def num_or_def monthly_limit_def)
  with b show ?thesis by simp
qed

text \<open>
  The claim as stated, for every ledger state, fails below zero: \<open>trackUsage\<close> adds
  whatever credits value it is handed, and after a record of -15 credits on an empty
  ledger the usage reads -1.5 percent of a limit of 1000.
\<close>

theorem getUsagePercentage_negative_counterexample:
  "getUsagePercentage
     \<lparr> cfg_scraperapi = Some \<lparr> freeMonthlyLimit = Some 1000, creditsPerRequest = None \<rparr>,
       cfg_scrapingdog = None, cfg_retry = None \<rparr>
     \<lparr> getFullYear = 2026, getMonth = 10, getDate = 3 \<rparr>
     (trackUsage \<lparr> getFullYear = 2026, getMonth = 10, getDate = 3 \<rparr>
        \<lparr> service = ''scraperapi'', site = ''jobs.bg'', credits = - 15, usage_url = None,
          timestamp = \<lparr> getFullYear = 2026, getMonth = 10, getDate = 3 \<rparr>, successful = True \<rparr>
        \<lparr> monthlyUsage = Map.empty,
          lastReset = \<lparr> getFullYear = 2026, getMonth = 10, getDate = 1 \<rparr> \<rparr>)
     ''scraperapi'' = - 3 / 2"
  by (simp add: getUsagePercentage_scraperapi trackUsage_def usage_of_def num_or_def monthly_limit_def
        Let_def)

subsection \<open>The monthly reset\<close>

text \<open>
  Claim C9, as the code has it. \<open>resetMonthlyUsage\<close> clears the usage counters and
  records the reset when it is invoked on day 1 of a month whose month number differs
  from that of the last reset; on any other day of the month, and when the month number
  is the one of the last reset, it changes nothing.
\<close>

theorem resetMonthlyUsage_first_day_only:
  "(getDate d = 1 \<and> getMonth d \<noteq> getMonth (lastReset t) \<longrightarrow>
      monthlyUsage (resetMonthlyUsage d t) = Map.empty \<and> lastReset (resetMonthlyUsage d t) = d)
   \<and> (getDate d \<noteq> 1 \<or> getMonth d = getMonth (lastReset t) \<longrightarrow> resetMonthlyUsage d t = t)"
  by (simp add: resetMonthlyUsage_def)

theorem resetMonthlyUsage_first_day_only_witness:
  "monthlyUsage (resetMonthlyUsage \<lparr> getFullYear = 2026, getMonth = 1, getDate = 1 \<rparr>
      \<lparr> monthlyUsage = [''scraperapi_2026_0'' \<mapsto> 40],
        lastReset = \<lparr> getFullYear = 2026, getMonth = 0, getDate = 15 \<rparr> \<rparr>) = Map.empty
   \<and> resetMonthlyUsage \<lparr> getFullYear = 2026, getMonth = 1, getDate = 3 \<rparr>
      \<lparr> monthlyUsage = [''scraperapi_2026_0'' \<mapsto> 40],
        lastReset = \<lparr> getFullYear = 2026, getMonth = 0, getDate = 15 \<rparr> \<rparr>
     = \<lparr> monthlyUsage = [''scraperapi_2026_0'' \<mapsto> 40],
        lastReset = \<lparr> getFullYear = 2026, getMonth = 0, getDate = 15 \<rparr> \<rparr>"
  using resetMonthlyUsage_first_day_only
          [of "\<lparr> getFullYear = 2026, getMonth = 1, getDate = 1 \<rparr>"
              "\<lparr> monthlyUsage = [''scraperapi_2026_0'' \<mapsto> 40],
                 lastReset = \<lparr> getFullYear = 2026, getMonth = 0, getDate = 15 \<rparr> \<rparr>"]
        resetMonthlyUsage_first_day_only
          [of "\<lparr> getFullYear = 2026, getMonth = 1, getDate = 3 \<rparr>"
              "\<lparr> monthlyUsage = [''scraperapi_2026_0'' \<mapsto> 40],
                 lastReset = \<lparr> getFullYear = 2026, getMonth = 0, getDate = 15 \<rparr> \<rparr>"]
  by simp

text \<open>
  The claim as stated fails: the last reset was on 15 January, the first invocation after
  the month changed happens on 2 February, and the January counter is still there.
\<close>

theorem resetMonthlyUsage_counterexample:
  "getMonth \<lparr> getFullYear = 2026, getMonth = 1, getDate = 2 \<rparr>
     \<noteq> getMonth (lastReset \<lparr> monthlyUsage = [''scraperapi_2026_0'' \<mapsto> 40],
          lastReset = \<lparr> getFullYear = 2026, getMonth = 0, getDate = 15 \<rparr> \<rparr>)
   \<and> monthlyUsage (resetMonthlyUsage \<lparr> getFullYear = 2026, getMonth = 1, getDate = 2 \<rparr>
        \<lparr> monthlyUsage = [''scraperapi_2026_0'' \<mapsto> 40],
          lastReset = \<lparr> getFullYear = 2026, getMonth = 0, getDate = 15 \<rparr> \<rparr>) ''scraperapi_2026_0''
      = Some 40"
  by (simp add: resetMonthlyUsage_def)


section \<open>Properties of the paid path\<close>

lemma usage_key_nov3 [simp]: "usage_key ''scraperapi'' nov3 = ''scraperapi_2026_10''"
  by (simp add: usage_key_def nov3_def show_nat.simps digit_char_def)

lemma today_example_env [simp]: "today (example_env paid draws) w = nov3"
  by (simp add: today_def example_env_def)

lemma usage_of_ledger_with [simp]: "usage_of (ledger_with n) ''scraperapi_2026_10'' = n"
  by (simp add: usage_of_def ledger_with_def num_or_def)

lemma remaining_example [simp]:
  "remaining (scraperapi (getServiceLimits (config_with_costs costs) nov3 (ledger_with n))) = max 0 (1000 - n)"
  by (simp add: getServiceLimits_def Let_def monthly_limit_def config_with_costs_def num_or_def)

lemma getCreditCost_jobs_bg [simp]:
  "getCreditCost (config_with_costs [''jobs.bg'' \<mapsto> c, ''default'' \<mapsto> 1]) ''jobs.bg'' ''scraperapi'' = num_or (Some c) 1"
  by (simp add: getCreditCost_def config_with_costs_def Let_def num_or_def)

lemma hasAvailableCredits_iff:
  "hasAvailableCredits cfg d t svc c \<longleftrightarrow>
     (svc = ''scraperapi'' \<and> c \<le> remaining (scraperapi (getServiceLimits cfg d t))
      \<or> svc = ''scrapingdog'' \<and> c \<le> dog_remaining (scrapingdog (getServiceLimits cfg d t)))"
  by (auto simp add: hasAvailableCredits_def Let_def)

text \<open>
  Claim C2. When the remaining \<open>scraperapi\<close> credits are strictly less than the credit
  cost of the request, \<open>hasAvailableCredits\<close> is false, \<open>executeWithPaidService\<close>
  throws the insufficient-credits error without calling the paid provider, and the world
  (the trace of calls and the ledger) is exactly what it was.
\<close>

theorem budget_gate_blocks_paid_call:
  assumes "remaining (scraperapi (getServiceLimits cfg (today env w) (tracker w)))
             < getCreditCost cfg (siteName ctx) ''scraperapi''"
  shows "\<not> hasAvailableCredits cfg (today env w) (tracker w) ''scraperapi''
             (getCreditCost cfg (siteName ctx) ''scraperapi'')
         \<and> executeWithPaidService env cfg ctx w =
             (Inl (Error (insufficient_credits_message
                            (getUsagePercentage cfg (today env w) (tracker w) ''scraperapi'')
                            (getCreditCost cfg (siteName ctx) ''scraperapi''))), w)
         \<and> paid_calls (trace (snd (executeWithPaidService env cfg ctx w))) = paid_calls (trace w)
         \<and> monthlyUsage (tracker (snd (executeWithPaidService env cfg ctx w))) = monthlyUsage (tracker w)"
proof -
  have no: "\<not> hasAvailableCredits cfg (today env w) (tracker w) ''scraperapi''
             (getCreditCost cfg (siteName ctx) ''scraperapi'')"
    using assms by (simp add: hasAvailableCredits_iff)
  then have run: "executeWithPaidService env cfg ctx w =
             (Inl (Error (insufficient_credits_message
                            (getUsagePercentage cfg (today env w) (tracker w) ''scraperapi'')
                            (getCreditCost cfg (siteName ctx) ''scraperapi''))), w)"
    by (simp add: executeWithPaidService_def Let_def)
  show ?thesis using no run by simp
qed

text \<open>The ledger at 999 of 1000 credits and a request costing 2.\<close>

theorem budget_gate_blocks_paid_call_witness:
  "\<not> hasAvailableCredits (config_with_costs [''jobs.bg'' \<mapsto> 2, ''default'' \<mapsto> 1]) nov3 (ledger_with 999) ''scraperapi'' 2
   \<and> snd (executeWithPaidService (example_env (\<lambda>opts. Inr failed_paid_response) (\<lambda>n. 0))
            (config_with_costs [''jobs.bg'' \<mapsto> 2, ''default'' \<mapsto> 1]) example_context (world_with 999))
      = world_with 999"
  using budget_gate_blocks_paid_call
          [of "config_with_costs [''jobs.bg'' \<mapsto> 2, ''default'' \<mapsto> 1]"
              "example_env (\<lambda>opts. Inr failed_paid_response) (\<lambda>n. 0)" "world_with 999" example_context]
  by (simp add: world_with_def example_context_def num_or_def)

lemma num_or_Some_0: "num_or (Some x) 0 = x"
  by (simp add: num_or_def)

lemma trackUsage_zero_credits:
  "credits u = 0 \<Longrightarrow> usage_of (trackUsage d u t) k = usage_of t k"
  by (simp add: trackUsage_usage_of num_or_Some_0)

lemma paid_outcome_of_failure:
  assumes "case r of Inl e \<Rightarrow> True | Inr p \<Rightarrow> \<not> p_success p \<or> p_html p = []"
  shows "\<exists>e. paid_outcome_of r = Inl e"
  using assms by (cases r) (auto simp add: paid_outcome_of_def)

text \<open>
  Claim C3. When the budget allows the paid call and the call completes unsuccessfully
  (the provider throws, or answers with \<open>success = false\<close> or an empty body), the
  orchestrator hands the tracker one usage record of 0 credits marked unsuccessful, and
  the used-credits counter of every key reads what it read before.
\<close>

theorem failed_paid_call_records_zero_credits:
  assumes budget: "hasAvailableCredits cfg (today env w) (tracker w) ''scraperapi''
                     (getCreditCost cfg (siteName ctx) ''scraperapi'')"
      and fails: "case scrapeWithScraperAPI env (paidOptions_of ctx) of
                    Inl e \<Rightarrow> True
                  | Inr paidResponse \<Rightarrow> \<not> p_success paidResponse \<or> p_html paidResponse = []"
  shows "\<exists>e u. executeWithPaidService env cfg ctx w
                 = (Inl e, track env u (emit (PaidCall (paidOptions_of ctx)) w))
               \<and> service u = ''scraperapi'' \<and> credits u = 0 \<and> \<not> successful u
               \<and> trace (snd (executeWithPaidService env cfg ctx w))
                   = trace w @ [PaidCall (paidOptions_of ctx), Track u]
               \<and> (\<forall>key. usage_of (tracker (snd (executeWithPaidService env cfg ctx w))) key
                          = usage_of (tracker w) key)"
proof -
  obtain e where e: "paid_outcome_of (scrapeWithScraperAPI env (paidOptions_of ctx)) = Inl e"
    using paid_outcome_of_failure [OF fails] by blast
  let ?w1 = "emit (PaidCall (paidOptions_of ctx)) w"
  let ?u = "\<lparr> service = ''scraperapi'', site = siteName ctx, credits = 0,
              usage_url = Some (url ctx), timestamp = today env ?w1, successful = False \<rparr>"
  have run: "executeWithPaidService env cfg ctx w = (Inl e, track env ?u ?w1)"
    using budget e by (simp add: executeWithPaidService_def Let_def)
  have tr: "trace (track env ?u ?w1) = trace w @ [PaidCall (paidOptions_of ctx), Track ?u]"
    by (simp add: track_def emit_def)
  have led: "usage_of (tracker (track env ?u ?w1)) key = usage_of (tracker w) key" for key
    by (simp add: track_def emit_def trackUsage_zero_credits)
  show ?thesis
    using run tr led by (intro exI [of _ e] exI [of _ ?u]) simp
qed

theorem failed_paid_call_records_zero_credits_witness:
  "usage_of (tracker (snd (executeWithPaidService (example_env (\<lambda>opts. Inr failed_paid_response) (\<lambda>n. 0))
            (config_with_costs [''jobs.bg'' \<mapsto> 10, ''default'' \<mapsto> 1]) example_context (world_with 150))))
     ''scraperapi_2026_10'' = 150"
proof -
  let ?env = "example_env (\<lambda>opts. Inr failed_paid_response) (\<lambda>n. 0)"
  let ?cfg = "config_with_costs [''jobs.bg'' \<mapsto> 10, ''default'' \<mapsto> 1]"
  have budget: "hasAvailableCredits ?cfg (today ?env (world_with 150)) (tracker (world_with 150)) ''scraperapi''
                  (getCreditCost ?cfg (siteName example_context) ''scraperapi'')"
    by (simp add: hasAvailableCredits_def Let_def world_with_def example_context_def num_or_def)
  have fails: "case scrapeWithScraperAPI ?env (paidOptions_of example_context) of
                 Inl e \<Rightarrow> True
               | Inr paidResponse \<Rightarrow> \<not> p_success paidResponse \<or> p_html paidResponse = []"
    by (simp add: example_env_def failed_paid_response_def)
  from failed_paid_call_records_zero_credits [OF budget fails]
  have "usage_of (tracker (snd (executeWithPaidService ?env ?cfg example_context (world_with 150))))
          ''scraperapi_2026_10'' = usage_of (tracker (world_with 150)) ''scraperapi_2026_10''"
    by blast
  then show ?thesis by (simp add: world_with_def)
qed


section \<open>Properties of the retry loop and the fallback\<close>

lemma free_calls_append [simp]: "free_calls (xs @ ys) = free_calls xs + free_calls ys"
  by (induction xs rule: free_calls.induct) simp_all

lemma paid_calls_append [simp]: "paid_calls (xs @ ys) = paid_calls xs + paid_calls ys"
  by (induction xs rule: paid_calls.induct) simp_all

lemma sleeps_append [simp]: "sleeps (xs @ ys) = sleeps xs @ sleeps ys"
  by (induction xs rule: sleeps.induct) simp_all

text \<open>One turn of the retry loop, by the outcome of the attempt.\<close>

lemma free_attempts_exhausted:
  "maxAttempts rc < attempt \<Longrightarrow>
   free_attempts env strategy rc checker attempt (ctx, lastErr, w) = (None, ctx, lastErr, w)"
  by (simp add: free_attempts.simps)

lemma free_attempts_failed:
  assumes "attempt \<le> maxAttempts rc"
      and "attempt_outcome_of checker
             (execute strategy (ctx\<lparr>totalRequestCount := totalRequestCount ctx + 1\<rparr>)) = Failed e"
  shows "free_attempts env strategy rc checker attempt (ctx, lastErr, w) =
         free_attempts env strategy rc checker (attempt + 1)
           (ctx\<lparr>totalRequestCount := totalRequestCount ctx + 1\<rparr>, Some (message e),
            if attempt < maxAttempts rc
            then emit (Sleep (retry_delay env rc attempt))
                   (emit (FreeCall (ctx\<lparr>totalRequestCount := totalRequestCount ctx + 1\<rparr>)) w)
            else emit (FreeCall (ctx\<lparr>totalRequestCount := totalRequestCount ctx + 1\<rparr>)) w)"
  using assms by (subst free_attempts.simps) (simp add: Let_def)

lemma free_attempts_blocked:
  assumes "attempt \<le> maxAttempts rc"
      and "attempt_outcome_of checker
             (execute strategy (ctx\<lparr>totalRequestCount := totalRequestCount ctx + 1\<rparr>)) = Blocked"
  shows "free_attempts env strategy rc checker attempt (ctx, lastErr, w) =
         (None, ctx\<lparr>totalRequestCount := totalRequestCount ctx + 1\<rparr>,
          Some ''Blocking detected - requires premium service'',
          emit (FreeCall (ctx\<lparr>totalRequestCount := totalRequestCount ctx + 1\<rparr>)) w)"
  using assms by (subst free_attempts.simps) (simp add: Let_def)

lemma free_attempts_succeeded:
  assumes "attempt \<le> maxAttempts rc"
      and "attempt_outcome_of checker
             (execute strategy (ctx\<lparr>totalRequestCount := totalRequestCount ctx + 1\<rparr>)) = Succeeded response"
  shows "free_attempts env strategy rc checker attempt (ctx, lastErr, w) =
         (Some response, ctx\<lparr>totalRequestCount := totalRequestCount ctx + 1\<rparr>, lastErr,
          emit (FreeCall (ctx\<lparr>totalRequestCount := totalRequestCount ctx + 1\<rparr>)) w)"
  using assms by (subst free_attempts.simps) (simp add: Let_def)





text \<open>The retry loop calls neither the paid provider nor the tracker.\<close>

lemma free_attempts_free_only:
  assumes "free_attempts env strategy rc checker a (ctx, lastErr, w) = (r, ctx', lastErr', w')"
  shows "paid_calls (trace w') = paid_calls (trace w) \<and> tracker w' = tracker w"
  using assms
proof (induction "maxAttempts rc + 1 - a" arbitrary: a ctx lastErr w)
  case 0
  then have "maxAttempts rc < a" by simp
  then show ?case using "0.prems" by (simp add: free_attempts_exhausted)
next
  case (Suc n)
  then have le: "a \<le> maxAttempts rc" and n: "n = maxAttempts rc + 1 - (a + 1)" by simp_all
  let ?ctx1 = "ctx\<lparr>totalRequestCount := totalRequestCount ctx + 1\<rparr>"
  show ?case
  proof (cases "attempt_outcome_of checker (execute strategy ?ctx1)")
    case (Succeeded response)
    from free_attempts_succeeded [OF le this] Suc.prems show ?thesis
      by (auto simp add: emit_def)
  next
    case Blocked
    from free_attempts_blocked [OF le this] Suc.prems show ?thesis
      by (auto simp add: emit_def)
  next
    case (Failed e)
    let ?w1 = "if a < maxAttempts rc
               then emit (Sleep (retry_delay env rc a)) (emit (FreeCall ?ctx1) w)
               else emit (FreeCall ?ctx1) w"
    have "free_attempts env strategy rc checker (a + 1) (?ctx1, Some (message e), ?w1)
            = (r, ctx', lastErr', w')"
      using free_attempts_failed [OF le Failed, of env lastErr w] Suc.prems by simp
    from Suc.hyps(1) [OF n this]
    show ?thesis by (simp add: emit_def)
  qed
qed

text \<open>What follows the loop when it is left without a response.\<close>

lemma executeWithFallback_after_loop:
  assumes "free_attempts env strategy (retry_policy cfg options) (isBlockedChecker options) 1
             (ctx, None, w) = (None, ctx', lastErr, w')"
  shows "executeWithFallback env cfg ctx strategy options w =
           (if paid_fallback_enabled options
            then (case executeWithPaidService env cfg (ctx'\<lparr>lastError := lastErr\<rparr>) w' of
                    (r, w'') \<Rightarrow> (r, ctx', w''))
            else (Inr (free_failure_response (retry_policy cfg options) ctx' lastErr), ctx', w'))"
  using assms by (simp add: executeWithFallback_def Let_def)

lemma executeWithPaidService_free_calls:
  "free_calls (trace (snd (executeWithPaidService env cfg c w))) = free_calls (trace w)"
  by (simp add: executeWithPaidService_def Let_def track_def emit_def split: sum.splits)

lemma executeWithPaidService_sleeps:
  "sleeps (trace (snd (executeWithPaidService env cfg c w))) = sleeps (trace w)"
  by (simp add: executeWithPaidService_def Let_def track_def emit_def split: sum.splits)

lemma executeWithPaidService_with_budget:
  assumes "hasAvailableCredits cfg (today env w) (tracker w) ''scraperapi''
             (getCreditCost cfg (siteName c) ''scraperapi'')"
  shows "\<exists>u. trace (snd (executeWithPaidService env cfg c w))
               = trace w @ [PaidCall (paidOptions_of c), Track u]"
  using assms by (simp add: executeWithPaidService_def Let_def track_def emit_def split: sum.splits)

lemma paidOptions_of_lastError [simp]: "paidOptions_of (c\<lparr>lastError := x\<rparr>) = paidOptions_of c"
  by (simp add: paidOptions_of_def)

lemma paidOptions_of_totalRequestCount [simp]:
  "paidOptions_of (c\<lparr>totalRequestCount := n\<rparr>) = paidOptions_of c"
  by (simp add: paidOptions_of_def)

lemma executeWithFallback_free_calls:
  assumes "free_attempts env strategy (retry_policy cfg options) (isBlockedChecker options) 1
             (ctx, None, w) = (None, ctx', lastErr, w')"
  shows "free_calls (trace (snd (snd (executeWithFallback env cfg ctx strategy options w))))
           = free_calls (trace w')"
    and "sleeps (trace (snd (snd (executeWithFallback env cfg ctx strategy options w))))
           = sleeps (trace w')"
proof -
  let ?c = "ctx'\<lparr>lastError := lastErr\<rparr>"
  have paid: "snd (snd (case executeWithPaidService env cfg ?c w' of (r, w'') \<Rightarrow> (r, ctx', w'')))
                = snd (executeWithPaidService env cfg ?c w')"
    by (simp split: prod.splits)
  show "free_calls (trace (snd (snd (executeWithFallback env cfg ctx strategy options w))))
           = free_calls (trace w')"
    by (simp add: executeWithFallback_after_loop [OF assms] paid executeWithPaidService_free_calls)
  show "sleeps (trace (snd (snd (executeWithFallback env cfg ctx strategy options w))))
           = sleeps (trace w')"
    by (simp add: executeWithFallback_after_loop [OF assms] paid executeWithPaidService_sleeps)
qed








subsection \<open>Blocking leaves the retry loop\<close>

lemma attempt_outcome_of_failed:
  assumes "case r of Inl e \<Rightarrow> True | Inr response \<Rightarrow> \<not> success response \<or> html response = []"
  shows "\<exists>e. attempt_outcome_of checker r = Failed e"
  using assms by (cases r) (auto simp add: attempt_outcome_of_def)

lemma attempt_outcome_of_blocked:
  assumes "success response" and "html response \<noteq> []" and "isBlocked (html response)"
  shows "attempt_outcome_of (Some isBlocked) (Inr response) = Blocked"
  using assms by (simp add: attempt_outcome_of_def)

lemma free_attempts_reach_blocked:
  assumes k: "a \<le> k" "k \<le> maxAttempts rc"
      and earlier: "\<forall>i. a \<le> i \<and> i < k \<longrightarrow>
                      (\<exists>e. attempt_outcome_of checker
                             (execute strategy (ctx\<lparr>totalRequestCount := totalRequestCount ctx + (i + 1 - a)\<rparr>))
                           = Failed e)"
      and blocked: "attempt_outcome_of checker
                      (execute strategy (ctx\<lparr>totalRequestCount := totalRequestCount ctx + (k + 1 - a)\<rparr>))
                    = Blocked"
  shows "\<exists>w'. free_attempts env strategy rc checker a (ctx, lastErr, w)
                = (None, ctx\<lparr>totalRequestCount := totalRequestCount ctx + (k + 1 - a)\<rparr>,
                   Some ''Blocking detected - requires premium service'', w')
              \<and> free_calls (trace w') = free_calls (trace w) + (k + 1 - a)
              \<and> last (trace w') = FreeCall (ctx\<lparr>totalRequestCount := totalRequestCount ctx + (k + 1 - a)\<rparr>)
              \<and> tracker w' = tracker w"
  using k earlier blocked
proof (induction "k - a" arbitrary: a ctx lastErr w)
  case 0
  then have a: "a = k" by simp
  let ?ctx1 = "ctx\<lparr>totalRequestCount := totalRequestCount ctx + 1\<rparr>"
  have "attempt_outcome_of checker (execute strategy ?ctx1) = Blocked"
    using "0.prems"(4) a by simp
  then have "free_attempts env strategy rc checker a (ctx, lastErr, w)
               = (None, ?ctx1, Some ''Blocking detected - requires premium service'', emit (FreeCall ?ctx1) w)"
    using "0.prems"(2) a by (intro free_attempts_blocked) simp_all
  then show ?case using a by (simp add: emit_def)
next
  case (Suc n)
  then have lt: "a < k" and n: "n = k - (a + 1)" by simp_all
  let ?ctx1 = "ctx\<lparr>totalRequestCount := totalRequestCount ctx + 1\<rparr>"
  have "\<exists>e. attempt_outcome_of checker (execute strategy ?ctx1) = Failed e"
    using Suc.prems(3) lt by (auto dest: spec [of _ a])
  then obtain e where e: "attempt_outcome_of checker (execute strategy ?ctx1) = Failed e" by blast
  let ?w1 = "if a < maxAttempts rc
             then emit (Sleep (retry_delay env rc a)) (emit (FreeCall ?ctx1) w)
             else emit (FreeCall ?ctx1) w"
  have le: "a \<le> maxAttempts rc" using lt Suc.prems(2) by simp
  have step: "free_attempts env strategy rc checker a (ctx, lastErr, w) =
              free_attempts env strategy rc checker (a + 1) (?ctx1, Some (message e), ?w1)"
    using free_attempts_failed [OF le e] by simp
  have shift: "?ctx1\<lparr>totalRequestCount := totalRequestCount ?ctx1 + (i + 1 - (a + 1))\<rparr>
                 = ctx\<lparr>totalRequestCount := totalRequestCount ctx + (i + 1 - a)\<rparr>"
    if "a + 1 \<le> i" for i using that by simp
  have earlier': "\<forall>i. a + 1 \<le> i \<and> i < k \<longrightarrow>
                    (\<exists>e. attempt_outcome_of checker
                           (execute strategy (?ctx1\<lparr>totalRequestCount := totalRequestCount ?ctx1 + (i + 1 - (a + 1))\<rparr>))
                         = Failed e)"
  proof (intro allI impI)
    fix i assume i: "a + 1 \<le> i \<and> i < k"
    then have "a \<le> i \<and> i < k" by simp
    from Suc.prems(3) [rule_format, OF this] i
    show "\<exists>e. attempt_outcome_of checker
                 (execute strategy (?ctx1\<lparr>totalRequestCount := totalRequestCount ?ctx1 + (i + 1 - (a + 1))\<rparr>))
               = Failed e"
      by (simp only: shift)
  qed
  have "a + 1 \<le> k" using lt by simp
  have blocked': "attempt_outcome_of checker
                    (execute strategy (?ctx1\<lparr>totalRequestCount := totalRequestCount ?ctx1 + (k + 1 - (a + 1))\<rparr>))
                  = Blocked"
    using Suc.prems(4) by (simp only: shift [OF \<open>a + 1 \<le> k\<close>])
  have "a + 1 \<le> k" using lt by simp
  from Suc.hyps(1) [OF n this Suc.prems(2) earlier' blocked', of "Some (message e)" ?w1]
  obtain w' where
      IH: "free_attempts env strategy rc checker (a + 1) (?ctx1, Some (message e), ?w1)
             = (None, ?ctx1\<lparr>totalRequestCount := totalRequestCount ?ctx1 + (k + 1 - (a + 1))\<rparr>,
                Some ''Blocking detected - requires premium service'', w')"
          "free_calls (trace w') = free_calls (trace ?w1) + (k + 1 - (a + 1))"
          "last (trace w') = FreeCall (?ctx1\<lparr>totalRequestCount := totalRequestCount ?ctx1 + (k + 1 - (a + 1))\<rparr>)"
          "tracker w' = tracker ?w1"
    by blast
  have cnt: "totalRequestCount ctx + 1 + (k + 1 - (a + 1)) = totalRequestCount ctx + (k + 1 - a)"
    using lt by simp
  have 1: "free_attempts env strategy rc checker a (ctx, lastErr, w)
             = (None, ctx\<lparr>totalRequestCount := totalRequestCount ctx + (k + 1 - a)\<rparr>,
                Some ''Blocking detected - requires premium service'', w')"
    using step IH(1) cnt by simp
  have 2: "free_calls (trace w') = free_calls (trace w) + (k + 1 - a)"
    using IH(2) lt by (simp add: emit_def)
  have 3: "last (trace w') = FreeCall (ctx\<lparr>totalRequestCount := totalRequestCount ctx + (k + 1 - a)\<rparr>)"
    using IH(3) cnt by simp
  have 4: "tracker w' = tracker w"
    using IH(4) by (simp add: emit_def)
  show ?case using 1 2 3 4 by blast
qed


text \<open>
  Claim C5. Let the attempts before the \<open>k\<close>-th fail (the strategy throws, or answers
  without success or with an empty body), and let the \<open>k\<close>-th attempt
  (\<open>k\<close> at most \<open>maxAttempts\<close>) return a document (a successful response with a
  non-empty body) that the block checker flags. Then the loop is left at once: the
  strategy has been called exactly \<open>k\<close> times, that call is the last event of the loop
  (no sleep follows it) and nothing has touched the ledger or the paid provider. With the
  paid fallback enabled the run continues with \<open>executeWithPaidService\<close> on the context
  carrying the blocking message as \<open>lastError\<close>, whose result is the result of the run;
  if the budget allows, the event right after the blocked call is the call of the paid
  provider. With the fallback disabled the failure value is returned. In every case the
  whole run contains no further call of the free strategy.
\<close>

theorem block_short_circuits_retries:
  assumes k: "1 \<le> k" "k \<le> maxAttempts (retry_policy cfg options)"
      and earlier: "\<forall>i. 1 \<le> i \<and> i < k \<longrightarrow>
                      (case execute strategy (ctx\<lparr>totalRequestCount := totalRequestCount ctx + i\<rparr>) of
                         Inl e \<Rightarrow> True
                       | Inr earlierResponse \<Rightarrow> \<not> success earlierResponse \<or> html earlierResponse = [])"
      and checker: "isBlockedChecker options = Some isBlocked"
      and document: "execute strategy (ctx\<lparr>totalRequestCount := totalRequestCount ctx + k\<rparr>) = Inr response"
                    "success response" "html response \<noteq> []"
      and blocked: "isBlocked (html response)"
  shows "\<exists>w'. free_calls (trace w') = free_calls (trace w) + k
              \<and> last (trace w') = FreeCall (ctx\<lparr>totalRequestCount := totalRequestCount ctx + k\<rparr>)
              \<and> paid_calls (trace w') = paid_calls (trace w)
              \<and> tracker w' = tracker w
              \<and> (paid_fallback_enabled options \<longrightarrow>
                    executeWithFallback env cfg ctx strategy options w
                      = (case executeWithPaidService env cfg
                                (ctx\<lparr>totalRequestCount := totalRequestCount ctx + k,
                                     lastError := Some ''Blocking detected - requires premium service''\<rparr>) w' of
                           (r, w'') \<Rightarrow> (r, ctx\<lparr>totalRequestCount := totalRequestCount ctx + k\<rparr>, w'')))
              \<and> (paid_fallback_enabled options
                    \<and> hasAvailableCredits cfg (today env w') (tracker w') ''scraperapi''
                         (getCreditCost cfg (siteName ctx) ''scraperapi'') \<longrightarrow>
                    (\<exists>u. trace (snd (snd (executeWithFallback env cfg ctx strategy options w)))
                           = trace w' @ [PaidCall (paidOptions_of ctx), Track u]))
              \<and> (\<not> paid_fallback_enabled options \<longrightarrow>
                    (\<exists>r. executeWithFallback env cfg ctx strategy options w
                           = (Inr r, ctx\<lparr>totalRequestCount := totalRequestCount ctx + k\<rparr>, w')
                         \<and> \<not> success r))
              \<and> free_calls (trace (snd (snd (executeWithFallback env cfg ctx strategy options w))))
                  = free_calls (trace w) + k"
proof -
  let ?rc = "retry_policy cfg options"
  let ?chk = "isBlockedChecker options"
  let ?ctxk = "ctx\<lparr>totalRequestCount := totalRequestCount ctx + k\<rparr>"
  let ?msg = "Some ''Blocking detected - requires premium service''"
  let ?run = "executeWithFallback env cfg ctx strategy options w"
  have e': "\<forall>i. 1 \<le> i \<and> i < k \<longrightarrow>
              (\<exists>e. attempt_outcome_of ?chk
                     (execute strategy (ctx\<lparr>totalRequestCount := totalRequestCount ctx + (i + 1 - 1)\<rparr>))
                   = Failed e)"
  proof (intro allI impI)
    fix i assume i: "1 \<le> i \<and> i < k"
    from earlier [rule_format, OF i]
    have "\<exists>e. attempt_outcome_of ?chk
                 (execute strategy (ctx\<lparr>totalRequestCount := totalRequestCount ctx + i\<rparr>)) = Failed e"
      by (rule attempt_outcome_of_failed)
    then show "\<exists>e. attempt_outcome_of ?chk
                 (execute strategy (ctx\<lparr>totalRequestCount := totalRequestCount ctx + (i + 1 - 1)\<rparr>))
               = Failed e"
      by simp
  qed
  have b': "attempt_outcome_of ?chk
              (execute strategy (ctx\<lparr>totalRequestCount := totalRequestCount ctx + (k + 1 - 1)\<rparr>)) = Blocked"
    using attempt_outcome_of_blocked [of response isBlocked] document blocked checker by simp
  from free_attempts_reach_blocked [OF k e' b', of env None w]
  obtain w' where
      loop: "free_attempts env strategy ?rc ?chk 1 (ctx, None, w) = (None, ?ctxk, ?msg, w')"
    and calls: "free_calls (trace w') = free_calls (trace w) + k"
    and final: "last (trace w') = FreeCall ?ctxk"
    by auto
  have untouched: "paid_calls (trace w') = paid_calls (trace w)" "tracker w' = tracker w"
    using free_attempts_free_only [OF loop] by simp_all
  have after: "?run = (if paid_fallback_enabled options
                       then (case executeWithPaidService env cfg (?ctxk\<lparr>lastError := ?msg\<rparr>) w' of
                               (r, w'') \<Rightarrow> (r, ?ctxk, w''))
                       else (Inr (free_failure_response ?rc ?ctxk ?msg), ?ctxk, w'))"
    using executeWithFallback_after_loop [OF loop] .
  have paid: "?run = (case executeWithPaidService env cfg (?ctxk\<lparr>lastError := ?msg\<rparr>) w' of
                        (r, w'') \<Rightarrow> (r, ?ctxk, w''))"
    if "paid_fallback_enabled options"
    using after that by simp
  have provider: "\<exists>u. trace (snd (snd ?run)) = trace w' @ [PaidCall (paidOptions_of ctx), Track u]"
    if on: "paid_fallback_enabled options"
      and budget: "hasAvailableCredits cfg (today env w') (tracker w') ''scraperapi''
                     (getCreditCost cfg (siteName ctx) ''scraperapi'')"
  proof -
    have "hasAvailableCredits cfg (today env w') (tracker w') ''scraperapi''
            (getCreditCost cfg (siteName (?ctxk\<lparr>lastError := ?msg\<rparr>)) ''scraperapi'')"
      using budget by simp
    from executeWithPaidService_with_budget [OF this]
    obtain u where "trace (snd (executeWithPaidService env cfg (?ctxk\<lparr>lastError := ?msg\<rparr>) w'))
                      = trace w' @ [PaidCall (paidOptions_of ctx), Track u]"
      by auto
    then show ?thesis
      by (auto simp add: paid [OF on] split: prod.splits)
  qed
  have free: "\<exists>r. ?run = (Inr r, ?ctxk, w') \<and> \<not> success r"
    if "\<not> paid_fallback_enabled options"
    using after that by (simp add: free_failure_response_def)
  have total: "free_calls (trace (snd (snd ?run))) = free_calls (trace w) + k"
    using executeWithFallback_free_calls(1) [OF loop] calls by simp
  show ?thesis
    using calls final untouched paid provider free total by blast
qed

lemma short_document_is_blocked: "length doc < 500 \<Longrightarrow> isContentBlocked doc"
  by (simp add: isContentBlocked_def hasMinimalContent_def Let_def)


text \<open>
  The first attempt returns a short challenge page, the default options keep the paid
  fallback on and the ledger is empty: one call of the free strategy, then the paid
  provider.
\<close>

theorem block_short_circuits_retries_witness:
  "free_calls (trace (snd (snd (executeWithFallback (example_env (\<lambda>opts. Inr failed_paid_response) (\<lambda>n. 1 / 2))
       (config_with_costs shipped_costs) example_context blocked_page_strategy
       \<lparr> retryConfig = None, enablePaidFallback = None, isBlockedChecker = Some isContentBlocked \<rparr>
       (world_with 0))))) = 1
   \<and> paid_calls (trace (snd (snd (executeWithFallback (example_env (\<lambda>opts. Inr failed_paid_response) (\<lambda>n. 1 / 2))
       (config_with_costs shipped_costs) example_context blocked_page_strategy
       \<lparr> retryConfig = None, enablePaidFallback = None, isBlockedChecker = Some isContentBlocked \<rparr>
       (world_with 0))))) = 1"
proof -
  let ?env = "example_env (\<lambda>opts. Inr failed_paid_response) (\<lambda>n. 1 / 2)"
  let ?cfg = "config_with_costs shipped_costs"
  let ?opts = "\<lparr> retryConfig = None, enablePaidFallback = None, isBlockedChecker = Some isContentBlocked \<rparr>"
  let ?page = "\<lparr> html = ''<html><title>Just a moment</title>forbidden</html>'',
                 finalUrl = url (example_context\<lparr>totalRequestCount := totalRequestCount example_context + 1\<rparr>),
                 status = 403, headers = [], success = True,
                 error = None, loadTime = 900, cookies = [], metadata = None \<rparr>"
  let ?final = "snd (snd (executeWithFallback ?env ?cfg example_context blocked_page_strategy ?opts (world_with 0)))"
  have k: "(1::nat) \<le> 1" "1 \<le> maxAttempts (retry_policy ?cfg ?opts)"
    by (simp_all add: retry_policy_def getDefaultRetryConfig_def config_with_costs_def)
  have earlier: "\<forall>i. 1 \<le> i \<and> i < (1::nat) \<longrightarrow>
                   (case execute blocked_page_strategy
                           (example_context\<lparr>totalRequestCount := totalRequestCount example_context + i\<rparr>) of
                      Inl e \<Rightarrow> True
                    | Inr earlierResponse \<Rightarrow> \<not> success earlierResponse \<or> html earlierResponse = [])"
    by simp
  have checker: "isBlockedChecker ?opts = Some isContentBlocked" by simp
  have document: "execute blocked_page_strategy
                    (example_context\<lparr>totalRequestCount := totalRequestCount example_context + 1\<rparr>) = Inr ?page"
                 "success ?page" "html ?page \<noteq> []"
    by (simp_all add: blocked_page_strategy_def)
  have blocked: "isContentBlocked (html ?page)"
    by (rule short_document_is_blocked) simp
  have on: "paid_fallback_enabled ?opts" by (simp add: paid_fallback_enabled_def)
  from block_short_circuits_retries
         [OF k earlier checker document blocked, where env = ?env and w = "world_with 0"]
  obtain w' u where
      loop_paid: "paid_calls (trace w') = paid_calls (trace (world_with 0))"
    and ledger: "tracker w' = tracker (world_with 0)"
    and hand_over: "hasAvailableCredits ?cfg (today ?env w') (tracker w') ''scraperapi''
                      (getCreditCost ?cfg (siteName example_context) ''scraperapi'')
                    \<longrightarrow> trace ?final = trace w' @ [PaidCall (paidOptions_of example_context), Track u]"
    and total: "free_calls (trace ?final) = free_calls (trace (world_with 0)) + 1"
    using on by blast
  have budget: "hasAvailableCredits ?cfg (today ?env w') (tracker w') ''scraperapi''
                  (getCreditCost ?cfg (siteName example_context) ''scraperapi'')"
    by (simp add: ledger hasAvailableCredits_def Let_def world_with_def example_context_def
          shipped_costs_def num_or_def)
  have "paid_calls (trace ?final) = 1"
    using hand_over budget loop_paid by (simp add: world_with_def)
  then show ?thesis using total by (simp add: world_with_def)
qed



subsection \<open>What the entry point does on failure\<close>

lemma executeWithPaidService_insufficient:
  assumes "\<not> hasAvailableCredits cfg (today env w) (tracker w) ''scraperapi''
               (getCreditCost cfg (siteName c) ''scraperapi'')"
  shows "executeWithPaidService env cfg c w
           = (Inl (Error (insufficient_credits_message
                            (getUsagePercentage cfg (today env w) (tracker w) ''scraperapi'')
                            (getCreditCost cfg (siteName c) ''scraperapi''))), w)"
  using assms by (simp add: executeWithPaidService_def Let_def)

lemma executeWithPaidService_paid_failure:
  assumes "hasAvailableCredits cfg (today env w) (tracker w) ''scraperapi''
             (getCreditCost cfg (siteName c) ''scraperapi'')"
      and "paid_outcome_of (scrapeWithScraperAPI env (paidOptions_of c)) = Inl e"
  shows "executeWithPaidService env cfg c w
           = (Inl e, track env \<lparr> service = ''scraperapi'', site = siteName c, credits = 0,
                                 usage_url = Some (url c),
                                 timestamp = today env (emit (PaidCall (paidOptions_of c)) w),
                                 successful = False \<rparr>
                       (emit (PaidCall (paidOptions_of c)) w))"
  using assms by (simp add: executeWithPaidService_def Let_def)

text \<open>
  Claim C1, as the code has it. Let the retry loop end without a response (blocked, or
  all attempts used). With the paid fallback switched off, \<open>executeWithFallback\<close>
  returns the failure value: \<open>success = false\<close> and the error text
  \<open>Free scraping failed after N attempts: \<close> followed by the last error. With the paid
  fallback on it throws instead of returning a value: on an insufficient credit budget
  an error with the message \<open>Insufficient ScraperAPI credits. Current usage: P%. Required:
  C credits.\<close>; on an unsuccessful or empty paid response an error with the message
  \<open>ScraperAPI failed: \<close> followed by the provider's error text or \<open>No content
  received\<close>; and when the provider call itself throws, that error as it is, whatever
  its message. In the last two cases a zero-credit usage record has been tracked.
\<close>

theorem operational_failure_outcomes:
  assumes loop: "free_attempts env strategy (retry_policy cfg options) (isBlockedChecker options) 1
                   (ctx, None, w) = (None, ctx', lastErr, w')"
  shows "(\<not> paid_fallback_enabled options \<longrightarrow>
            executeWithFallback env cfg ctx strategy options w
              = (Inr \<lparr> html = [], finalUrl = url ctx', status = 0, headers = [], success = False,
                       error = Some (''Free scraping failed after ''
                                     @ show_nat (maxAttempts (retry_policy cfg options))
                                     @ '' attempts: '' @ show_str_null lastErr),
                       loadTime = 0, cookies = [], metadata = None \<rparr>, ctx', w'))
       \<and> (paid_fallback_enabled options
            \<and> \<not> hasAvailableCredits cfg (today env w') (tracker w') ''scraperapi''
                   (getCreditCost cfg (siteName ctx') ''scraperapi'') \<longrightarrow>
            executeWithFallback env cfg ctx strategy options w
              = (Inl (Error (''Insufficient ScraperAPI credits. Current usage: ''
                             @ toFixed1 (getUsagePercentage cfg (today env w') (tracker w') ''scraperapi'')
                             @ ''%. Required: ''
                             @ show_int (getCreditCost cfg (siteName ctx') ''scraperapi'')
                             @ '' credits.'')), ctx', w'))
       \<and> (paid_fallback_enabled options
            \<and> hasAvailableCredits cfg (today env w') (tracker w') ''scraperapi''
                 (getCreditCost cfg (siteName ctx') ''scraperapi'') \<longrightarrow>
            (\<forall>paidResponse.
                scrapeWithScraperAPI env (paidOptions_of ctx') = Inr paidResponse
                \<and> (\<not> p_success paidResponse \<or> p_html paidResponse = []) \<longrightarrow>
                (\<exists>u. executeWithFallback env cfg ctx strategy options w
                        = (Inl (Error (''ScraperAPI failed: ''
                                       @ str_or (p_error paidResponse) ''No content received'')),
                           ctx', track env u (emit (PaidCall (paidOptions_of ctx')) w'))
                     \<and> credits u = 0 \<and> \<not> successful u))
          \<and> (\<forall>e. scrapeWithScraperAPI env (paidOptions_of ctx') = Inl e \<longrightarrow>
                (\<exists>u. executeWithFallback env cfg ctx strategy options w
                        = (Inl e, ctx', track env u (emit (PaidCall (paidOptions_of ctx')) w'))
                     \<and> credits u = 0 \<and> \<not> successful u)))"
proof -
  let ?rc = "retry_policy cfg options"
  let ?c = "ctx'\<lparr>lastError := lastErr\<rparr>"
  let ?run = "executeWithFallback env cfg ctx strategy options w"
  have after: "?run = (if paid_fallback_enabled options
                       then (case executeWithPaidService env cfg ?c w' of (r, w'') \<Rightarrow> (r, ctx', w''))
                       else (Inr (free_failure_response ?rc ctx' lastErr), ctx', w'))"
    using executeWithFallback_after_loop [OF loop] .
  have free: "?run = (Inr \<lparr> html = [], finalUrl = url ctx', status = 0, headers = [], success = False,
                           error = Some (''Free scraping failed after '' @ show_nat (maxAttempts ?rc)
                                         @ '' attempts: '' @ show_str_null lastErr),
                           loadTime = 0, cookies = [], metadata = None \<rparr>, ctx', w')"
    if "\<not> paid_fallback_enabled options"
    using that by (simp add: after free_failure_response_def)
  have budget: "?run = (Inl (Error (''Insufficient ScraperAPI credits. Current usage: ''
                             @ toFixed1 (getUsagePercentage cfg (today env w') (tracker w') ''scraperapi'')
                             @ ''%. Required: ''
                             @ show_int (getCreditCost cfg (siteName ctx') ''scraperapi'')
                             @ '' credits.'')), ctx', w')"
    if on: "paid_fallback_enabled options"
      and none: "\<not> hasAvailableCredits cfg (today env w') (tracker w') ''scraperapi''
                     (getCreditCost cfg (siteName ctx') ''scraperapi'')"
  proof -
    have "\<not> hasAvailableCredits cfg (today env w') (tracker w') ''scraperapi''
            (getCreditCost cfg (siteName ?c) ''scraperapi'')"
      using none by simp
    from executeWithPaidService_insufficient [OF this] on
    show ?thesis
      by (simp add: after insufficient_credits_message_def)
  qed
  have failed: "\<exists>u. ?run = (Inl e, ctx', track env u (emit (PaidCall (paidOptions_of ctx')) w'))
                    \<and> credits u = 0 \<and> \<not> successful u"
    if on: "paid_fallback_enabled options"
      and funds: "hasAvailableCredits cfg (today env w') (tracker w') ''scraperapi''
                    (getCreditCost cfg (siteName ctx') ''scraperapi'')"
      and outcome: "paid_outcome_of (scrapeWithScraperAPI env (paidOptions_of ctx')) = Inl e"
    for e
  proof -
    have f: "hasAvailableCredits cfg (today env w') (tracker w') ''scraperapi''
               (getCreditCost cfg (siteName ?c) ''scraperapi'')"
      using funds by simp
    have o: "paid_outcome_of (scrapeWithScraperAPI env (paidOptions_of ?c)) = Inl e"
      using outcome by simp
    let ?u = "\<lparr> service = ''scraperapi'', site = siteName ?c, credits = 0,
                usage_url = Some (url ?c),
                timestamp = today env (emit (PaidCall (paidOptions_of ?c)) w'),
                successful = False \<rparr>"
    have "?run = (Inl e, ctx', track env ?u (emit (PaidCall (paidOptions_of ctx')) w'))"
      using executeWithPaidService_paid_failure [OF f o] on by (simp add: after)
    then show ?thesis by (intro exI [of _ ?u]) simp
  qed
  have unsuccessful:
    "\<exists>u. ?run = (Inl (Error (''ScraperAPI failed: '' @ str_or (p_error paidResponse) ''No content received'')),
                  ctx', track env u (emit (PaidCall (paidOptions_of ctx')) w'))
         \<and> credits u = 0 \<and> \<not> successful u"
    if on: "paid_fallback_enabled options"
      and funds: "hasAvailableCredits cfg (today env w') (tracker w') ''scraperapi''
                    (getCreditCost cfg (siteName ctx') ''scraperapi'')"
      and answer: "scrapeWithScraperAPI env (paidOptions_of ctx') = Inr paidResponse"
                  "\<not> p_success paidResponse \<or> p_html paidResponse = []"
    for paidResponse
  proof -
    have "paid_outcome_of (scrapeWithScraperAPI env (paidOptions_of ctx'))
            = Inl (Error (''ScraperAPI failed: '' @ str_or (p_error paidResponse) ''No content received''))"
      using answer by (auto simp add: paid_outcome_of_def)
    from failed [OF on funds this] show ?thesis .
  qed
  have thrown: "\<exists>u. ?run = (Inl e, ctx', track env u (emit (PaidCall (paidOptions_of ctx')) w'))
                    \<and> credits u = 0 \<and> \<not> successful u"
    if on: "paid_fallback_enabled options"
      and funds: "hasAvailableCredits cfg (today env w') (tracker w') ''scraperapi''
                    (getCreditCost cfg (siteName ctx') ''scraperapi'')"
      and throws: "scrapeWithScraperAPI env (paidOptions_of ctx') = Inl e"
    for e
  proof -
    have "paid_outcome_of (scrapeWithScraperAPI env (paidOptions_of ctx')) = Inl e"
      using throws by (simp add: paid_outcome_of_def)
    from failed [OF on funds this] show ?thesis .
  qed
  show ?thesis
    using free budget unsuccessful thrown by blast
qed

text \<open>
  The claim as stated fails: with the default options, a strategy that always throws and
  a ledger at its limit, the entry point throws instead of returning a failure value.
\<close>

theorem insufficient_budget_throws_counterexample:
  "fst (executeWithFallback (example_env (\<lambda>opts. Inr failed_paid_response) (\<lambda>n. 1 / 2))
          (config_with_costs shipped_costs) example_context failing_strategy
          \<lparr> retryConfig = None, enablePaidFallback = None, isBlockedChecker = None \<rparr> (world_with 1000))
   = Inl (Error ''Insufficient ScraperAPI credits. Current usage: 100.0%. Required: 10 credits.'')"
  by (simp add: executeWithFallback_def retry_policy_def paid_fallback_enabled_def free_attempts.simps
        getDefaultRetryConfig_def config_with_costs_def shipped_costs_def
        attempt_outcome_of_def failing_strategy_def emit_def retry_delay_def example_env_def
        world_with_def Let_def executeWithPaidService_def
        hasAvailableCredits_def getServiceLimits_def getCreditCost_def getUsagePercentage_def
        monthly_limit_def trial_limit_def num_or_def usage_of_def usage_key_def today_def nov3_def
        ledger_with_def example_context_def show_nat.simps digit_char_def
        insufficient_credits_message_def toFixed1_def show_int_def)




text \<open>
  The four outcomes at the example request, with a free strategy that always throws: the
  failure value with the fallback off; and, with the fallback on, the three thrown errors
  (ledger at 995 of 1000 with a cost of 10; a paid response with \<open>success = false\<close>; a
  provider call that throws).
\<close>

lemma failing_strategy_loop:
  "free_attempts (example_env paid (\<lambda>n. 1 / 2)) failing_strategy
     (retry_policy (config_with_costs shipped_costs)
        \<lparr> retryConfig = None, enablePaidFallback = fallback, isBlockedChecker = None \<rparr>)
     (isBlockedChecker \<lparr> retryConfig = None, enablePaidFallback = fallback, isBlockedChecker = None \<rparr>)
     1 (example_context, None, world_with n)
   = (None, example_context\<lparr>totalRequestCount := 3\<rparr>, Some ''net::ERR_CONNECTION_RESET'',
      \<lparr> tracker = ledger_with n,
        trace = [FreeCall (example_context\<lparr>totalRequestCount := 1\<rparr>), Sleep 11000,
                 FreeCall (example_context\<lparr>totalRequestCount := 2\<rparr>), Sleep 31000,
                 FreeCall (example_context\<lparr>totalRequestCount := 3\<rparr>)] \<rparr>)"
  by (simp add: free_attempts.simps attempt_outcome_of_def failing_strategy_def emit_def
        retry_delay_def example_env_def world_with_def Let_def retry_policy_def
        getDefaultRetryConfig_def config_with_costs_def example_context_def)

theorem operational_failure_outcomes_witness:
  "fst (executeWithFallback (example_env (\<lambda>opts. Inr failed_paid_response) (\<lambda>n. 1 / 2))
          (config_with_costs shipped_costs) example_context failing_strategy
          \<lparr> retryConfig = None, enablePaidFallback = Some False, isBlockedChecker = None \<rparr> (world_with 0))
     = Inr \<lparr> html = [], finalUrl = ''https://www.jobs.bg/front_job_search.php'', status = 0,
             headers = [], success = False,
             error = Some ''Free scraping failed after 3 attempts: net::ERR_CONNECTION_RESET'',
             loadTime = 0, cookies = [], metadata = None \<rparr>
   \<and> fst (executeWithFallback (example_env (\<lambda>opts. Inr failed_paid_response) (\<lambda>n. 1 / 2))
          (config_with_costs shipped_costs) example_context failing_strategy
          \<lparr> retryConfig = None, enablePaidFallback = Some True, isBlockedChecker = None \<rparr> (world_with 995))
     = Inl (Error ''Insufficient ScraperAPI credits. Current usage: 99.5%. Required: 10 credits.'')
   \<and> fst (executeWithFallback (example_env (\<lambda>opts. Inr failed_paid_response) (\<lambda>n. 1 / 2))
          (config_with_costs shipped_costs) example_context failing_strategy
          \<lparr> retryConfig = None, enablePaidFallback = Some True, isBlockedChecker = None \<rparr> (world_with 0))
     = Inl (Error ''ScraperAPI failed: HTTP 500'')
   \<and> fst (executeWithFallback (example_env (\<lambda>opts. Inl (Error ''socket hang up'')) (\<lambda>n. 1 / 2))
          (config_with_costs shipped_costs) example_context failing_strategy
          \<lparr> retryConfig = None, enablePaidFallback = Some True, isBlockedChecker = None \<rparr> (world_with 0))
     = Inl (Error ''socket hang up'')"
proof -
  let ?cfg = "config_with_costs shipped_costs"
  let ?answers = "example_env (\<lambda>opts. Inr failed_paid_response) (\<lambda>n. 1 / 2)"
  let ?throws = "example_env (\<lambda>opts. Inl (Error ''socket hang up'')) (\<lambda>n. 1 / 2)"
  let ?off = "\<lparr> retryConfig = None, enablePaidFallback = Some False, isBlockedChecker = None \<rparr>"
  let ?on = "\<lparr> retryConfig = None, enablePaidFallback = Some True, isBlockedChecker = None \<rparr>"
  let ?c3 = "example_context\<lparr>totalRequestCount := 3\<rparr>"
  have off: "\<not> paid_fallback_enabled ?off" and on: "paid_fallback_enabled ?on"
    by (simp_all add: paid_fallback_enabled_def)
  have attempts: "maxAttempts (retry_policy ?cfg ?off) = 3"
    by (simp add: retry_policy_def getDefaultRetryConfig_def config_with_costs_def)
  have cost: "getCreditCost ?cfg (siteName ?c3) ''scraperapi'' = 10"
    by (simp add: example_context_def shipped_costs_def num_or_def)
  have funds: "hasAvailableCredits ?cfg nov3 (ledger_with 0) ''scraperapi'' 10"
    and no_funds: "\<not> hasAvailableCredits ?cfg nov3 (ledger_with 995) ''scraperapi'' 10"
    by (simp_all add: hasAvailableCredits_def Let_def)
  have percent: "toFixed1 (getUsagePercentage ?cfg nov3 (ledger_with 995) ''scraperapi'') = ''99.5''"
    by (simp add: getUsagePercentage_def Let_def getServiceLimits_def monthly_limit_def
          config_with_costs_def num_or_def toFixed1_def show_nat.simps digit_char_def)
  have a: "fst (executeWithFallback ?answers ?cfg example_context failing_strategy ?off (world_with 0))
             = Inr \<lparr> html = [], finalUrl = ''https://www.jobs.bg/front_job_search.php'', status = 0,
                     headers = [], success = False,
                     error = Some ''Free scraping failed after 3 attempts: net::ERR_CONNECTION_RESET'',
                     loadTime = 0, cookies = [], metadata = None \<rparr>"
    using operational_failure_outcomes [OF failing_strategy_loop [of "\<lambda>opts. Inr failed_paid_response" "Some False" 0]]
          off attempts
    by (simp add: show_nat.simps digit_char_def show_str_null_def example_context_def)
  have b: "fst (executeWithFallback ?answers ?cfg example_context failing_strategy ?on (world_with 995))
             = Inl (Error ''Insufficient ScraperAPI credits. Current usage: 99.5%. Required: 10 credits.'')"
    using operational_failure_outcomes [OF failing_strategy_loop [of "\<lambda>opts. Inr failed_paid_response" "Some True" 995]]
          on no_funds cost percent
    by (simp add: show_int_def show_nat.simps digit_char_def)
  have answer: "scrapeWithScraperAPI ?answers (paidOptions_of ?c3) = Inr failed_paid_response"
    and failed: "\<not> p_success failed_paid_response \<or> p_html failed_paid_response = []"
    and reason: "str_or (p_error failed_paid_response) ''No content received'' = ''HTTP 500''"
    by (simp_all add: example_env_def failed_paid_response_def str_or_def)
  have c: "fst (executeWithFallback ?answers ?cfg example_context failing_strategy ?on (world_with 0))
             = Inl (Error ''ScraperAPI failed: HTTP 500'')"
    using operational_failure_outcomes [OF failing_strategy_loop [of "\<lambda>opts. Inr failed_paid_response" "Some True" 0]]
          on funds cost answer failed reason
    by auto
  have throws: "scrapeWithScraperAPI ?throws (paidOptions_of ?c3) = Inl (Error ''socket hang up'')"
    by (simp add: example_env_def)
  have d: "fst (executeWithFallback ?throws ?cfg example_context failing_strategy ?on (world_with 0))
             = Inl (Error ''socket hang up'')"
    using operational_failure_outcomes
            [OF failing_strategy_loop [of "\<lambda>opts. Inl (Error ''socket hang up'')" "Some True" 0]]
          on funds cost throws
    by auto
  show ?thesis using a b c d by simp
qed


section \<open>Properties of the block detector\<close>

text \<open>\<open>str_includes\<close> is the contiguous-sublist relation of the list library.\<close>

lemma str_includes_Nil [simp]: "str_includes s []"
  by (induction s) simp_all




lemma length_toLowerCase [simp]: "length (toLowerCase s) = length s"
  by (simp add: toLowerCase_def)














section \<open>Properties of the session registry\<close>

text \<open>
  Every session is registered under its own id: this holds when the service is
  constructed and is kept by every operation, so it holds in every state the service
  reaches.
\<close>

lemma pool_ok_initial: "pool_ok initial_engine"
  by (simp add: pool_ok_def initial_engine_def)

lemma createNewSession_result:
  assumes "createNewSession lib t config (Some sid) e = (Inr s, e')"
  shows "session_id s = str_or (Some sid) (generateSessionId lib config None)"
    and "sessions e' = (sessions e)(session_id s \<mapsto> s)"
    and "browser_context s = contextsCreated e"
    and "contextsCreated e' = contextsCreated e + 1"
    and "session_config s = config"
  using assms
  by (auto simp add: createNewSession_def Let_def split: option.splits if_splits)

lemma pool_ok_createNewSession:
  assumes "pool_ok e" and "createNewSession lib t config sid e = (r, e')"
  shows "pool_ok e'"
  using assms
  by (auto simp add: createNewSession_def Let_def pool_ok_def split: option.splits if_splits)

lemma pool_ok_closeSession: "pool_ok e \<Longrightarrow> pool_ok (closeSession lib sid e)"
  by (auto simp add: closeSession_def pool_ok_def split: option.splits)

lemma pool_ok_getSession:
  assumes "pool_ok e" and "getSession lib t config e = (r, e')"
  shows "pool_ok e'"
proof (cases "sessions e (generateSessionId lib config None)")
  case None
  then show ?thesis
    using assms pool_ok_createNewSession [of e lib t config "Some (generateSessionId lib config None)" r e']
    by (simp add: getSession_def Let_def)
next
  case (Some s)
  then have e': "e' = e\<lparr>sessions := (sessions e)(generateSessionId lib config None \<mapsto> s\<lparr>lastActivity := t\<rparr>)\<rparr>"
    using assms(2) by (simp add: getSession_def Let_def)
  have "session_id s = generateSessionId lib config None"
    using assms(1) Some by (simp add: pool_ok_def)
  then show ?thesis
    using assms(1) unfolding e' pool_ok_def by (auto split: if_splits)
qed

lemma pool_ok_rotateSession:
  assumes "pool_ok e" and "rotateSession lib t r sid e = (res, e')"
  shows "pool_ok e'"
proof (cases "sessions e sid")
  case None
  then show ?thesis using assms by (simp add: rotateSession_def)
next
  case (Some cur)
  then have "createNewSession lib t (session_config cur)
               (Some (generateSessionId lib (session_config cur) (Some (t, r))))
               (closeSession lib sid e) = (res, e')"
    using assms(2) by (simp add: rotateSession_def Let_def)
  then show ?thesis
    using pool_ok_createNewSession pool_ok_closeSession assms(1) by blast
qed

lemma str_or_same: "str_or (Some x) x = x"
  by (simp add: str_or_def)

lemma getSession_id:
  assumes ok: "pool_ok e" and got: "getSession lib t config e = (Inr s, e')"
  shows "session_id s = generateSessionId lib config None"
    and "sessions e' (generateSessionId lib config None) = Some s"
proof -
  let ?k = "generateSessionId lib config None"
  show "session_id s = ?k"
  proof (cases "sessions e ?k")
    case None
    then have "createNewSession lib t config (Some ?k) e = (Inr s, e')"
      using got by (simp add: getSession_def Let_def)
    from createNewSession_result(1) [OF this] show ?thesis by (simp add: str_or_same)
  next
    case (Some s0)
    then have "s = s0\<lparr>lastActivity := t\<rparr>" using got by (simp add: getSession_def Let_def)
    moreover have "session_id s0 = ?k" using ok Some by (simp add: pool_ok_def)
    ultimately show ?thesis by simp
  qed
  then show "sessions e' ?k = Some s"
    using got createNewSession_result(2) [of lib t config ?k e s e']
    by (cases "sessions e ?k") (auto simp add: getSession_def Let_def)
qed

text \<open>
  Claim C7, as the code has it. The id of the session that \<open>getSession\<close> returns is the
  digest of the configuration alone. So two calls with the same configuration return
  sessions with the same id and the same browsing context, whatever the time between
  them; and after \<open>rotateSession\<close> on that id, which registers its replacement under the
  replacement's own id, the next \<open>getSession\<close> with the same configuration again returns a
  session whose id is the id from before the rotation.
\<close>

theorem session_identity_is_deterministic:
  assumes ok: "pool_ok e"
      and first: "getSession lib t1 config e = (Inr s1, e1)"
  shows "(getSession lib t2 config e1 = (Inr s2, e2) \<longrightarrow>
            session_id s2 = session_id s1 \<and> browser_context s2 = browser_context s1)
       \<and> (rotateSession lib t3 r (session_id s1) e1 = (Inr rotated, e3)
            \<and> getSession lib t4 config e3 = (Inr s4, e4) \<longrightarrow>
            session_id s4 = session_id s1
            \<and> sessions e3 (session_id rotated) = Some rotated)"
proof -
  let ?k = "generateSessionId lib config None"
  have id1: "session_id s1 = ?k" and reg1: "sessions e1 ?k = Some s1"
    using getSession_id [OF ok first] by simp_all
  have ok1: "pool_ok e1" using pool_ok_getSession [OF ok first] .
  have again: "session_id s2 = session_id s1 \<and> browser_context s2 = browser_context s1"
    if "getSession lib t2 config e1 = (Inr s2, e2)"
    using that reg1 id1 by (auto simp add: getSession_def Let_def)
  have rotate: "session_id s4 = session_id s1 \<and> sessions e3 (session_id rotated) = Some rotated"
    if rot: "rotateSession lib t3 r (session_id s1) e1 = (Inr rotated, e3)"
      and next_get: "getSession lib t4 config e3 = (Inr s4, e4)"
  proof -
    have ok3: "pool_ok e3" using pool_ok_rotateSession [OF ok1 rot] .
    have "session_id s4 = ?k" using getSession_id(1) [OF ok3 next_get] .
    moreover have "sessions e3 (session_id rotated) = Some rotated"
    proof -
      have "createNewSession lib t3 (session_config s1)
              (Some (generateSessionId lib (session_config s1) (Some (t3, r))))
              (closeSession lib (session_id s1) e1) = (Inr rotated, e3)"
        using rot reg1 id1 by (simp add: rotateSession_def Let_def)
      from createNewSession_result(2) [OF this] show ?thesis by simp
    qed
    ultimately show ?thesis using id1 by simp
  qed
  show ?thesis using again rotate by blast
qed


text \<open>The first \<open>getSession\<close> of a freshly constructed service, when Playwright works.\<close>

lemma getSession_initial_engine:
  "getSession working_libraries t config initial_engine
     = (Inr \<lparr> browser_context = 0, session_page = 0, session_config = config, createdAt = t,
              lastActivity = t, requestCount = 0,
              session_id = generateSessionId working_libraries config None \<rparr>,
        \<lparr> browser = True,
          sessions = [generateSessionId working_libraries config None \<mapsto>
                        \<lparr> browser_context = 0, session_page = 0, session_config = config, createdAt = t,
                          lastActivity = t, requestCount = 0,
                          session_id = generateSessionId working_libraries config None \<rparr>],
          contextsCreated = 1, contextsClosed = [] \<rparr>)"
  by (simp add: getSession_def createNewSession_def initial_engine_def working_libraries_def
        Let_def str_or_same)

theorem session_identity_is_deterministic_witness:
  "case acquire_twice working_libraries jobs_bg_session_config 1000 2000 initial_engine of
     None \<Rightarrow> False
   | Some (s1, s2, e1, e2) \<Rightarrow> session_id s2 = session_id s1"
proof -
  obtain s1 e1 where first: "getSession working_libraries 1000 jobs_bg_session_config initial_engine = (Inr s1, e1)"
    by (simp add: getSession_initial_engine)
  have reg: "sessions e1 (generateSessionId working_libraries jobs_bg_session_config None) = Some s1"
    using getSession_id(2) [OF pool_ok_initial first] .
  obtain s2 e2 where second: "getSession working_libraries 2000 jobs_bg_session_config e1 = (Inr s2, e2)"
    using reg by (simp add: getSession_def Let_def)
  from session_identity_is_deterministic [OF pool_ok_initial first, of 2000 s2 e2]
  have "session_id s2 = session_id s1" using second by simp
  then show ?thesis by (simp add: acquire_twice_def first second)
qed

text \<open>
  The claim as stated fails: for the configuration of the \<open>jobs.bg\<close> scraper on a
  fresh service, the session acquired after the rotation has the id of the session
  acquired before it, the first eight hexadecimal digits of the MD5 digest of the
  configuration string.
\<close>

lemma createNewSession_working:
  "\<exists>s e'. createNewSession working_libraries t config sid e = (Inr s, e')"
  by (simp add: createNewSession_def working_libraries_def Let_def)

lemma getSession_working:
  "\<exists>s e'. getSession working_libraries t config e = (Inr s, e')"
proof (cases "sessions e (generateSessionId working_libraries config None)")
  case None
  then show ?thesis
    using createNewSession_working
            [of t config "Some (generateSessionId working_libraries config None)" e]
    by (simp add: getSession_def Let_def)
next
  case (Some s0)
  then show ?thesis by (simp add: getSession_def Let_def)
qed

lemma rotateSession_working:
  assumes "sessions e sid = Some s"
  shows "\<exists>s' e'. rotateSession working_libraries t r sid e = (Inr s', e')"
  using assms
        createNewSession_working
          [of t "session_config s"
              "Some (generateSessionId working_libraries (session_config s) (Some (t, r)))"
              "closeSession working_libraries sid e"]
  by (simp add: rotateSession_def Let_def)

theorem rotate_then_acquire_same_id_counterexample:
  "map_option (\<lambda>(s1, s2, s3). (session_id s1 = take 8 (md5_hex (baseStr jobs_bg_session_config)),
                                session_id s3 = session_id s1))
     (acquire_rotate_acquire working_libraries jobs_bg_session_config 1000 2000 ''0.4217'' 3000 initial_engine)
   = Some (True, True)"
proof -
  let ?lib = working_libraries and ?cfg = jobs_bg_session_config
  from getSession_working [of 1000 ?cfg initial_engine]
  obtain s1 e1 where first: "getSession ?lib 1000 ?cfg initial_engine = (Inr s1, e1)"
    by blast
  have id1: "session_id s1 = generateSessionId ?lib ?cfg None"
    and reg: "sessions e1 (generateSessionId ?lib ?cfg None) = Some s1"
    using getSession_id [OF pool_ok_initial first] by simp_all
  have ok1: "pool_ok e1" using pool_ok_getSession [OF pool_ok_initial first] .
  have reg1: "sessions e1 (session_id s1) = Some s1"
    using reg id1 by simp
  from rotateSession_working [OF reg1, of 2000 "''0.4217''"]
  obtain s2 e2 where rot: "rotateSession ?lib 2000 ''0.4217'' (session_id s1) e1 = (Inr s2, e2)"
    by blast
  have ok2: "pool_ok e2" using pool_ok_rotateSession [OF ok1 rot] .
  from getSession_working [of 3000 ?cfg e2]
  obtain s3 e3 where third: "getSession ?lib 3000 ?cfg e2 = (Inr s3, e3)"
    by blast
  have id3: "session_id s3 = generateSessionId ?lib ?cfg None"
    using getSession_id(1) [OF ok2 third] .
  have run: "acquire_rotate_acquire ?lib ?cfg 1000 2000 ''0.4217'' 3000 initial_engine = Some (s1, s2, s3)"
    by (simp add: acquire_rotate_acquire_def first rot third)
  have "generateSessionId ?lib ?cfg None = take 8 (md5_hex (baseStr ?cfg))"
    by (simp add: generateSessionId_def working_libraries_def)
  then show ?thesis
    using id1 id3 by (simp add: run)
qed

text \<open>
  Claim C8, as the code has it. When a session is registered under the key of the
  configuration, \<open>getSession\<close> returns it with its last-activity time set to the time of
  the call, however long ago its last activity was: no browsing context is created or
  closed, and no idle timeout is consulted. A browsing context is created only when no
  session is registered under the key; the new session then carries the next context
  handle and the time of the call.
\<close>

theorem getSession_applies_no_idle_timeout:
  "(sessions e (generateSessionId lib config None) = Some s \<longrightarrow>
      (\<exists>e'. getSession lib t config e = (Inr (s\<lparr>lastActivity := t\<rparr>), e')
            \<and> contextsCreated e' = contextsCreated e \<and> contextsClosed e' = contextsClosed e
            \<and> sessions e' (generateSessionId lib config None) = Some (s\<lparr>lastActivity := t\<rparr>)))
   \<and> (sessions e (generateSessionId lib config None) = None \<longrightarrow>
      (\<forall>s' e'. getSession lib t config e = (Inr s', e') \<longrightarrow>
          browser_context s' = contextsCreated e \<and> contextsCreated e' = contextsCreated e + 1
          \<and> createdAt s' = t \<and> lastActivity s' = t))"
  by (auto simp add: getSession_def createNewSession_def Let_def split: option.splits)

theorem getSession_applies_no_idle_timeout_witness:
  "browser_context (projr (fst (getSession working_libraries 31536000000 jobs_bg_session_config
       (snd (getSession working_libraries 0 jobs_bg_session_config initial_engine))))) = 0
   \<and> contextsCreated (snd (getSession working_libraries 31536000000 jobs_bg_session_config
       (snd (getSession working_libraries 0 jobs_bg_session_config initial_engine)))) = 1
   \<and> browser_context (projr (fst (getSession working_libraries 0 jobs_bg_session_config initial_engine))) = 0
   \<and> contextsCreated (snd (getSession working_libraries 0 jobs_bg_session_config initial_engine)) = 1"
proof -
  define lib where "lib = working_libraries"
  define cfg where "cfg = jobs_bg_session_config"
  define k where "k = generateSessionId lib cfg None"
  define s where "s = \<lparr> browser_context = 0, session_page = 0, session_config = cfg,
                          createdAt = 0, lastActivity = 0, requestCount = 0, session_id = k \<rparr>"
  define e1 where "e1 = snd (getSession lib 0 cfg initial_engine)"
  have first: "getSession lib 0 cfg initial_engine = (Inr s, e1)"
    unfolding e1_def s_def k_def lib_def by (simp add: getSession_initial_engine)
  have registered: "sessions e1 (generateSessionId lib cfg None) = Some s"
    and made1: "contextsCreated e1 = 1"
    unfolding e1_def s_def k_def lib_def by (simp_all add: getSession_initial_engine)
  have absent: "sessions initial_engine (generateSessionId lib cfg None) = None"
    and made0: "contextsCreated initial_engine = 0"
    by (simp_all add: initial_engine_def)
  note reuse = getSession_applies_no_idle_timeout
                 [of e1 lib cfg s 31536000000, THEN conjunct1, THEN mp, OF registered]
  note create = getSession_applies_no_idle_timeout
                 [of initial_engine lib cfg s 0, THEN conjunct2, THEN mp, OF absent,
                  THEN spec, THEN spec, THEN mp, OF first]
  from reuse obtain e2 where
      second: "getSession lib 31536000000 cfg e1 = (Inr (s\<lparr>lastActivity := 31536000000\<rparr>), e2)"
    and made2: "contextsCreated e2 = contextsCreated e1"
    by (elim exE conjE)
  have a: "browser_context (projr (fst (getSession lib 31536000000 cfg e1))) = 0"
    by (simp add: second s_def)
  have b: "contextsCreated (snd (getSession lib 31536000000 cfg e1)) = 1"
    by (simp add: second made2 made1)
  have c: "browser_context (projr (fst (getSession lib 0 cfg initial_engine))) = 0"
    using create made0 by (simp add: first)
  have d: "contextsCreated (snd (getSession lib 0 cfg initial_engine)) = 1"
    using create made0 by (simp add: first)
  show ?thesis
    using a b c d unfolding e1_def lib_def cfg_def by (intro conjI)
qed

text \<open>
  The claim as stated fails: a session whose last activity was a year ago (31536000000
  milliseconds) is returned again, with its browsing context 0, and the number of contexts
  created stays 1.
\<close>

theorem idle_session_is_reused_counterexample:
  "map_option (\<lambda>(s1, s2, e1, e2). (browser_context s1, lastActivity s1, browser_context s2, lastActivity s2,
                                    contextsCreated e1, contextsCreated e2))
     (acquire_twice working_libraries jobs_bg_session_config 0 31536000000 initial_engine)
   = Some (0, 0, 0, 31536000000, 1, 1)"
  by (simp add: acquire_twice_def getSession_initial_engine) (simp add: getSession_def Let_def)

end
